theory Spec2Isabelle
  imports Main "HOL-Library.AList" "HOL-Library.Word"
begin

section \<open>Python values, records and exceptions\<close>

text \<open>
  A record of the dataset is a Python \<^verbatim>\<open>Dict[str, Any]\<close>. Dictionaries are association
  lists in insertion order: \<open>map_of\<close> is \<^verbatim>\<open>d.get(k)\<close> / \<^verbatim>\<open>d[k]\<close>, \<open>AList.update\<close> is
  \<^verbatim>\<open>d[k] = v\<close> (in place for a key that is there, appended otherwise) and \<open>AList.delete\<close>
  is \<^verbatim>\<open>d.pop(k, None)\<close>. A \<open>char\<close> of a \<open>PStr\<close> stands for one code point, so the text
  covered is the text made of the code points below 256; \<open>length\<close> is Python's \<^verbatim>\<open>len\<close>.
  \<open>PImage\<close> is an instance of \<^verbatim>\<open>PIL.Image.Image\<close>; \<open>PObject n\<close> is an instance of any other
  class, one that defines neither \<^verbatim>\<open>__bool__\<close> nor \<^verbatim>\<open>__len__\<close>, with \<open>n\<close> to tell two apart.
\<close>

type_synonym bytes = "8 word list"

datatype pil_image = PilImage bytes

datatype pyval =
    PNone
  | PStr string
  | PBytes bytes
  | PInt int
  | PBool bool
  | PList "pyval list"
  | PDict "(string \<times> pyval) list"
  | PImage pil_image
  | PObject nat

type_synonym pyrecord = "(string \<times> pyval) list"

text \<open>
  Exceptions. \<open>lib_exn\<close> names the subclasses of Python's \<^verbatim>\<open>Exception\<close> that a call into the
  standard library or into PIL raised; \<open>base_exn\<close> names the classes that derive from
  \<^verbatim>\<open>BaseException\<close> and not from \<^verbatim>\<open>Exception\<close>. \<open>py_exn\<close> is an exception in flight: one of
  these, or what the interpreter raises for the statements of the processors themselves.
  \<open>is_Exception\<close> is \<^verbatim>\<open>isinstance(exc, Exception)\<close>, the test \<^verbatim>\<open>except Exception\<close> makes.
\<close>

datatype lib_exn =
    BinasciiError
  | ValueError
  | TypeError
  | OSError
  | UnidentifiedImageError
  | OtherError string

datatype base_exn =
    KeyboardInterrupt
  | SystemExit
  | GeneratorExit

datatype py_exn =
    ImportError string
  | NameError string
  | IndexError
  | Raised lib_exn
  | RaisedBase base_exn

definition is_Exception :: "py_exn \<Rightarrow> bool" where
  "is_Exception exc = (case exc of RaisedBase b \<Rightarrow> False | _ \<Rightarrow> True)"

text \<open>Python's \<^verbatim>\<open>d.get(k)\<close>: \<^verbatim>\<open>None\<close> for a key that is not there.\<close>

definition dict_get :: "(string \<times> pyval) list \<Rightarrow> string \<Rightarrow> pyval" where
  "dict_get d k = (case map_of d k of None \<Rightarrow> PNone | Some v \<Rightarrow> v)"

text \<open>Python's \<^verbatim>\<open>xs[i]\<close> for an index that is not negative: \<^verbatim>\<open>IndexError\<close> out of range.\<close>

definition py_index :: "pyval list \<Rightarrow> nat \<Rightarrow> py_exn + pyval" where
  "py_index xs i = (if i < length xs then Inr (xs ! i) else Inl IndexError)"

text \<open>
  Python's \<^verbatim>\<open>str(v)\<close>. On a \<^verbatim>\<open>str\<close> it is the identity and on \<^verbatim>\<open>None\<close> it is the text
  \<^verbatim>\<open>None\<close>; what the built-in gives on every other object (the object's \<^verbatim>\<open>__str__\<close>, which
  may raise an exception of either kind) is the parameter \<open>coerce\<close>.
\<close>

datatype str_exn =
    StrException lib_exn
  | StrBaseException base_exn

type_synonym str_builtin = "pyval \<Rightarrow> str_exn + string"

definition py_str :: "str_builtin \<Rightarrow> pyval \<Rightarrow> py_exn + string" where
  "py_str coerce v =
     (case v of
        PStr s \<Rightarrow> Inr s
      | PNone \<Rightarrow> Inr ''None''
      | _ \<Rightarrow> (case coerce v of
                Inl (StrException e) \<Rightarrow> Inl (Raised e)
              | Inl (StrBaseException b) \<Rightarrow> Inl (RaisedBase b)
              | Inr s \<Rightarrow> Inr s))"

text \<open>
  Python's \<^verbatim>\<open>str.isspace\<close> on one code point below 256, and \<^verbatim>\<open>str.strip()\<close>.
\<close>

definition is_space :: "char \<Rightarrow> bool" where
  "is_space c =
     (let n = (of_char c :: nat)
      in (9 \<le> n \<and> n \<le> 13) \<or> (28 \<le> n \<and> n \<le> 32) \<or> n = 133 \<or> n = 160)"

definition strip :: "string \<Rightarrow> string" where
  "strip s = rev (dropWhile is_space (rev (dropWhile is_space s)))"

section \<open>The longest-explanation selector (qa\_longest\_mapping.py)\<close>

record qa_processor =
  qa_pairs_field :: string
  question_field :: string
  explanation_field :: string
  answer_field :: string
  problem_field :: string
  solution_field :: string
  keep_unmapped :: bool
  remove_source_fields :: bool

definition get_source_container :: "qa_processor \<Rightarrow> pyrecord \<Rightarrow> (string \<times> pyval) list" where
  "get_source_container p example =
     (case dict_get example (qa_pairs_field p) of
        PDict qa_pairs \<Rightarrow> qa_pairs
      | _ \<Rightarrow> [])"

definition as_list :: "pyval \<Rightarrow> pyval list" where
  "as_list v = (case v of PNone \<Rightarrow> [] | PList xs \<Rightarrow> xs | _ \<Rightarrow> [v])"

definition have_matching_lengths :: "pyval list list \<Rightarrow> bool" where
  "have_matching_lengths sequences = (card (set (map length sequences)) = 1)"

text \<open>
  The loop of \<^verbatim>\<open>_select_longest_index\<close>: \<open>idx\<close> is the position \<^verbatim>\<open>enumerate\<close> has reached,
  \<open>max_length\<close> and \<open>max_index\<close> are the two variables of the source.
\<close>

fun select_loop ::
  "str_builtin \<Rightarrow> nat \<Rightarrow> pyval list \<Rightarrow> int \<Rightarrow> nat option \<Rightarrow> py_exn + nat option" where
  "select_loop coerce idx [] max_length max_index = Inr max_index"
| "select_loop coerce idx (item # rest) max_length max_index =
     (if item = PNone then select_loop coerce (Suc idx) rest max_length max_index
      else (case py_str coerce item of
              Inl e \<Rightarrow> Inl e
            | Inr text \<Rightarrow>
                (let current_length = int (length text)
                 in if current_length > max_length
                    then select_loop coerce (Suc idx) rest current_length (Some idx)
                    else select_loop coerce (Suc idx) rest max_length max_index)))"

definition select_longest_index :: "str_builtin \<Rightarrow> pyval list \<Rightarrow> py_exn + nat option" where
  "select_longest_index coerce explanations = select_loop coerce 0 explanations (- 1) None"

definition format_solution :: "string \<Rightarrow> string \<Rightarrow> string" where
  "format_solution explanation answer =
     explanation @ [CHR 0x0A, CHR 0x0A] @ ''The answer is '' @ [CHR 0x5C] @ ''boxed{''
       @ answer @ ''}.''"

definition remove_sources :: "qa_processor \<Rightarrow> pyrecord \<Rightarrow> pyrecord" where
  "remove_sources p result =
     (if remove_source_fields p then
        (if qa_pairs_field p \<noteq> [] then AList.delete (qa_pairs_field p) result
         else fold AList.delete [question_field p, explanation_field p, answer_field p] result)
      else result)"

text \<open>\<^verbatim>\<open>str(xs[index]).strip()\<close>, as lines 58 to 60 do for each of the three sequences.\<close>

definition stripped_at :: "str_builtin \<Rightarrow> pyval list \<Rightarrow> nat \<Rightarrow> py_exn + string" where
  "stripped_at coerce xs index =
     (case py_index xs index of
        Inl e \<Rightarrow> Inl e
      | Inr v \<Rightarrow> (case py_str coerce v of Inl e \<Rightarrow> Inl e | Inr s \<Rightarrow> Inr (strip s)))"

text \<open>Lines 71 to 82: the record that is returned for the three stripped texts.\<close>

definition build_result :: "qa_processor \<Rightarrow> pyrecord \<Rightarrow> string \<Rightarrow> string \<Rightarrow> string \<Rightarrow> pyrecord" where
  "build_result p example question explanation answer =
     (let result0 = (if keep_unmapped p then example else []);
          result1 = AList.update (problem_field p) (PStr question) result0;
          result2 = AList.update (solution_field p)
                      (PStr (format_solution explanation answer)) result1
      in remove_sources p result2)"

text \<open>
  The body of the \<^verbatim>\<open>try\<close> block of \<^verbatim>\<open>process_example\<close>: \<open>Inl\<close> is an exception that leaves
  the block, \<open>Inr None\<close> is \<^verbatim>\<open>return None\<close>, \<open>Inr (Some r)\<close> is \<^verbatim>\<open>return result\<close>. The
  logging calls change nothing that is returned and are left out.
\<close>

definition qa_try_body ::
  "str_builtin \<Rightarrow> qa_processor \<Rightarrow> pyrecord \<Rightarrow> py_exn + pyrecord option" where
  "qa_try_body coerce p example =
     (let source = get_source_container p example;
          questions = as_list (dict_get source (question_field p));
          explanations = as_list (dict_get source (explanation_field p));
          answers = as_list (dict_get source (answer_field p))
      in if questions = [] \<or> explanations = [] \<or> answers = [] then Inr None
         else if \<not> have_matching_lengths [questions, explanations, answers] then Inr None
         else (case select_longest_index coerce explanations of
                 Inl e \<Rightarrow> Inl e
               | Inr None \<Rightarrow> Inr None
               | Inr (Some index) \<Rightarrow>
                  (case stripped_at coerce questions index of Inl e \<Rightarrow> Inl e | Inr question \<Rightarrow>
                  (case stripped_at coerce explanations index of Inl e \<Rightarrow> Inl e | Inr explanation \<Rightarrow>
                  (case stripped_at coerce answers index of Inl e \<Rightarrow> Inl e | Inr answer \<Rightarrow>
                     if question = [] \<or> explanation = [] \<or> answer = [] then Inr None
                     else Inr (Some (build_result p example question explanation answer)))))))"

text \<open>
  \<^verbatim>\<open>process_example\<close>: the body under \<^verbatim>\<open>except Exception\<close> (line 84). The handler takes
  an exception that is an instance of \<^verbatim>\<open>Exception\<close>; any other leaves the method. The copy
  made for \<open>result\<close> is the only dictionary the body writes to, so the handler returns
  \<open>example\<close> as it came in.
\<close>

definition qa_process_example ::
  "str_builtin \<Rightarrow> qa_processor \<Rightarrow> pyrecord \<Rightarrow> py_exn + pyrecord option" where
  "qa_process_example coerce p example =
     (case qa_try_body coerce p example of
        Inr r \<Rightarrow> Inr r
      | Inl exc \<Rightarrow>
          if is_Exception exc then Inr (if keep_unmapped p then Some example else None)
          else Inl exc)"

text \<open>
  \<^verbatim>\<open>len(str(v))\<close> for the statement of the selection property; \<open>- 1\<close>, the starting value of
  \<^verbatim>\<open>max_length\<close>, where \<^verbatim>\<open>str(v)\<close> raises.
\<close>

definition coerced_length :: "str_builtin \<Rightarrow> pyval \<Rightarrow> int" where
  "coerced_length coerce v =
     (case py_str coerce v of Inr text \<Rightarrow> int (length text) | Inl e \<Rightarrow> - 1)"

text \<open>The processor \<^verbatim>\<open>__init__\<close> builds from a configuration that sets no option.\<close>

definition qa_defaults :: qa_processor where
  "qa_defaults =
     \<lparr> qa_pairs_field = ''qa_pairs'', question_field = ''question'',
       explanation_field = ''explanation'', answer_field = ''answer'',
       problem_field = ''problem'', solution_field = ''solution'',
       keep_unmapped = True, remove_source_fields = False \<rparr>"

text \<open>The field names lines 75 to 80 remove from the result.\<close>

definition removed_fields :: "qa_processor \<Rightarrow> string set" where
  "removed_fields p =
     (if remove_source_fields p then
        (if qa_pairs_field p \<noteq> [] then {qa_pairs_field p}
         else {question_field p, explanation_field p, answer_field p})
      else {})"

section \<open>The image normalizer (image\_format\_converter.py)\<close>

text \<open>
  The options of \<^verbatim>\<open>config\<close> that \<^verbatim>\<open>__init__\<close> reads with \<^verbatim>\<open>config.get(key, default)\<close>;
  \<open>None\<close> is a key that is not in the dictionary.
\<close>

record converter_config =
  cfg_image_fields :: "string list option"
  cfg_target_format :: "string option"
  cfg_skip_on_error :: "bool option"

text \<open>
  What the module takes from outside: the outcome of its two guarded imports (the module
  constants \<^verbatim>\<open>HAS_PIL\<close> and \<^verbatim>\<open>HAS_DATASETS_IMAGE\<close>), the library calls
  \<^verbatim>\<open>base64.b64decode(text)\<close>, \<^verbatim>\<open>PILImage.open(BytesIO(data))\<close>, \<^verbatim>\<open>PILImage.open(path)\<close> and
  \<^verbatim>\<open>image.save(buffer, format='PNG')\<close> with \<^verbatim>\<open>buffer.getvalue()\<close>, each of which returns or
  raises, and the constructor of the base class \<^verbatim>\<open>DatasetProcessor\<close>
  (\<^verbatim>\<open>processors/__init__.py\<close>), \<open>None\<close> when it returns.
\<close>

record environment =
  HAS_PIL :: bool
  HAS_DATASETS_IMAGE :: bool
  b64decode :: "string \<Rightarrow> lib_exn + bytes"
  pil_open :: "bytes \<Rightarrow> lib_exn + pil_image"
  pil_open_path :: "pyval \<Rightarrow> lib_exn + pil_image"
  pil_save_png :: "pil_image \<Rightarrow> lib_exn + bytes"
  base_init :: "converter_config \<Rightarrow> py_exn option"

record image_processor =
  image_fields :: "string list"
  target_format :: string
  skip_on_error :: bool

definition image_init :: "environment \<Rightarrow> converter_config \<Rightarrow> py_exn + image_processor" where
  "image_init env config =
     (case base_init env config of
        Some e \<Rightarrow> Inl e
      | None \<Rightarrow>
          if \<not> HAS_PIL env
          then Inl (ImportError ''PIL is required for image format conversion'')
          else if \<not> HAS_DATASETS_IMAGE env
          then Inl (ImportError ''datasets.Image is required for format conversion'')
          else Inr \<lparr> image_fields =
                       (case cfg_image_fields config of None \<Rightarrow> [''image''] | Some fs \<Rightarrow> fs),
                     target_format =
                       (case cfg_target_format config of None \<Rightarrow> ''hf_image'' | Some t \<Rightarrow> t),
                     skip_on_error =
                       (case cfg_skip_on_error config of None \<Rightarrow> True | Some b \<Rightarrow> b) \<rparr>)"

text \<open>The truth value Python gives a value in a condition.\<close>

definition truthy :: "pyval \<Rightarrow> bool" where
  "truthy v =
     (case v of
        PNone \<Rightarrow> False
      | PStr s \<Rightarrow> s \<noteq> []
      | PBytes b \<Rightarrow> b \<noteq> []
      | PInt n \<Rightarrow> n \<noteq> 0
      | PBool b \<Rightarrow> b
      | PList xs \<Rightarrow> xs \<noteq> []
      | PDict d \<Rightarrow> d \<noteq> []
      | PImage img \<Rightarrow> True
      | PObject n \<Rightarrow> True)"

text \<open>The \<^verbatim>\<open>LOG.warning\<close> calls of the two conversions, by the line that makes them.\<close>

datatype warning =
    UnexpectedBytesType
  | DictFormatNotRecognized
  | FailedBase64 string
  | ErrorConvertingImage string py_exn
  | ErrorConvertingToBytes string py_exn

type_synonym conversion = "warning list \<times> (py_exn + pyrecord)"

text \<open>
  The \<^verbatim>\<open>try\<close> block of \<^verbatim>\<open>_convert_to_pil\<close> (lines 121 to 164). Where the import of PIL
  failed the name \<^verbatim>\<open>PILImage\<close> is unbound, and the first statement that reads it raises
  \<^verbatim>\<open>NameError\<close>. Every statement that can raise comes before the assignment to
  \<^verbatim>\<open>example[field]\<close>, so an exception leaves \<open>example\<close> as it was. What the block raises is a
  \<open>lib_exn\<close> of a library call or that \<^verbatim>\<open>NameError\<close>, instances of \<^verbatim>\<open>Exception\<close>, which the
  handler \<^verbatim>\<open>except Exception\<close> of line 166 (and of line 214) takes.
\<close>

definition pil_try_body :: "environment \<Rightarrow> pyrecord \<Rightarrow> string \<Rightarrow> pyval \<Rightarrow> conversion" where
  "pil_try_body env example field image_data =
     (case image_data of
        PNone \<Rightarrow> ([], Inr example)
      | _ \<Rightarrow>
        if \<not> HAS_PIL env then ([], Inl (NameError ''PILImage''))
        else
          (case image_data of
             PImage img \<Rightarrow> ([], Inr example)
           | PDict d \<Rightarrow>
               (case map_of d ''bytes'' of
                  Some bytes_data \<Rightarrow>
                    (case (case bytes_data of
                             PStr s \<Rightarrow> (case b64decode env s of
                                          Inl e \<Rightarrow> Inl (Raised e)
                                        | Inr b \<Rightarrow> Inr (PBytes b))
                           | _ \<Rightarrow> Inr bytes_data) of
                       Inl e \<Rightarrow> ([], Inl e)
                     | Inr (PBytes b) \<Rightarrow>
                         (case pil_open env b of
                            Inl e \<Rightarrow> ([], Inl (Raised e))
                          | Inr pil_image \<Rightarrow>
                              ([], Inr (AList.update field (PImage pil_image) example)))
                     | Inr _ \<Rightarrow> ([UnexpectedBytesType], Inr example))
                | None \<Rightarrow>
                    (case map_of d ''path'' of
                       None \<Rightarrow> ([DictFormatNotRecognized], Inr example)
                     | Some path \<Rightarrow>
                         if truthy path then
                           (case pil_open_path env path of
                              Inl e \<Rightarrow> ([], Inl (Raised e))
                            | Inr pil_image \<Rightarrow>
                                ([], Inr (AList.update field (PImage pil_image) example)))
                         else ([DictFormatNotRecognized], Inr example)))
           | PBytes b \<Rightarrow>
               (case pil_open env b of
                  Inl e \<Rightarrow> ([], Inl (Raised e))
                | Inr pil_image \<Rightarrow> ([], Inr (AList.update field (PImage pil_image) example)))
           | PStr s \<Rightarrow>
               (case b64decode env s of
                  Inl e \<Rightarrow> ([FailedBase64 field], Inr example)
                | Inr b \<Rightarrow>
                    (case pil_open env b of
                       Inl e \<Rightarrow> ([FailedBase64 field], Inr example)
                     | Inr pil_image \<Rightarrow>
                         ([], Inr (AList.update field (PImage pil_image) example))))
           | _ \<Rightarrow> ([], Inr example)))"

definition convert_to_pil ::
  "environment \<Rightarrow> image_processor \<Rightarrow> pyrecord \<Rightarrow> string \<Rightarrow> conversion" where
  "convert_to_pil env p example field =
     (case map_of example field of
        None \<Rightarrow> ([], Inr example)
      | Some image_data \<Rightarrow>
          (case pil_try_body env example field image_data of
             (ws, Inr example') \<Rightarrow> (ws, Inr example')
           | (ws, Inl e) \<Rightarrow>
               (ws @ [ErrorConvertingImage field e],
                if \<not> skip_on_error p then Inl e else Inr example)))"

text \<open>
  The \<^verbatim>\<open>try\<close> block of one round of the loop of \<^verbatim>\<open>_convert_to_bytes\<close> (lines 182 to 212).
\<close>

definition bytes_try_body :: "environment \<Rightarrow> pyrecord \<Rightarrow> string \<Rightarrow> pyval \<Rightarrow> conversion" where
  "bytes_try_body env example field image_data =
     (case image_data of
        PNone \<Rightarrow> ([], Inr example)
      | _ \<Rightarrow>
        if \<not> HAS_PIL env then ([], Inl (NameError ''PILImage''))
        else
          (case image_data of
             PImage img \<Rightarrow>
               (case pil_save_png env img of
                  Inl e \<Rightarrow> ([], Inl (Raised e))
                | Inr b \<Rightarrow> ([], Inr (AList.update field (PBytes b) example)))
           | PDict d \<Rightarrow>
               (case map_of d ''bytes'' of
                  None \<Rightarrow> ([], Inr example)
                | Some (PStr s) \<Rightarrow>
                    (case b64decode env s of
                       Inl e \<Rightarrow> ([], Inl (Raised e))
                     | Inr b \<Rightarrow> ([], Inr (AList.update field (PBytes b) example)))
                | Some bytes_data \<Rightarrow> ([], Inr (AList.update field bytes_data example)))
           | PBytes b \<Rightarrow> ([], Inr example)
           | PStr s \<Rightarrow>
               (case b64decode env s of
                  Inl e \<Rightarrow> ([FailedBase64 field], Inr example)
                | Inr b \<Rightarrow> ([], Inr (AList.update field (PBytes b) example)))
           | _ \<Rightarrow> ([], Inr example)))"

text \<open>One round of the loop of \<^verbatim>\<open>_convert_to_bytes\<close>, for one field.\<close>

definition convert_field_to_bytes ::
  "environment \<Rightarrow> image_processor \<Rightarrow> pyrecord \<Rightarrow> string \<Rightarrow> conversion" where
  "convert_field_to_bytes env p example field =
     (case map_of example field of
        None \<Rightarrow> ([], Inr example)
      | Some image_data \<Rightarrow>
          (case bytes_try_body env example field image_data of
             (ws, Inr example') \<Rightarrow> (ws, Inr example')
           | (ws, Inl e) \<Rightarrow>
               (ws @ [ErrorConvertingToBytes field e],
                if \<not> skip_on_error p then Inl e else Inr example)))"

text \<open>
  The loop \<^verbatim>\<open>for field in self.image_fields\<close>, of \<^verbatim>\<open>_convert_to_bytes\<close> and of
  \<^verbatim>\<open>process_example\<close>: each round works on the record the round before left, and an
  exception ends the loop.
\<close>

fun for_each_field :: "(pyrecord \<Rightarrow> string \<Rightarrow> conversion) \<Rightarrow> string list \<Rightarrow> pyrecord \<Rightarrow> conversion" where
  "for_each_field round [] example = ([], Inr example)"
| "for_each_field round (field # rest) example =
     (case round example field of
        (ws, Inl e) \<Rightarrow> (ws, Inl e)
      | (ws, Inr example') \<Rightarrow>
          (case for_each_field round rest example' of (ws', r) \<Rightarrow> (ws @ ws', r)))"

definition convert_to_bytes :: "environment \<Rightarrow> image_processor \<Rightarrow> pyrecord \<Rightarrow> conversion" where
  "convert_to_bytes env p example =
     for_each_field (convert_field_to_bytes env p) (image_fields p) example"

text \<open>
  \<^verbatim>\<open>process_example\<close> of the image normalizer: the warnings logged, and the exception that
  leaves the method or the value it returns (declared \<^verbatim>\<open>Optional[Dict[str, Any]]\<close>).
\<close>

definition img_process_example ::
  "environment \<Rightarrow> image_processor \<Rightarrow> pyrecord \<Rightarrow> warning list \<times> (py_exn + pyrecord option)" where
  "img_process_example env p example =
     (case (if target_format p = ''hf_image''
            then for_each_field (convert_to_pil env p) (image_fields p) example
            else convert_to_bytes env p example) of
        (ws, Inl e) \<Rightarrow> (ws, Inl e)
      | (ws, Inr example') \<Rightarrow> (ws, Inr (Some example')))"

text \<open>
  An environment to run the normalizer in: both imports succeeded, the base constructor
  returns, \<^verbatim>\<open>b64decode\<close> accepts the text \<^verbatim>\<open>aGk=\<close> and rejects every other, no byte string is
  an image, no path can be opened and every image is saved as the empty byte string.
\<close>

definition test_environment :: environment where
  "test_environment =
     \<lparr> HAS_PIL = True, HAS_DATASETS_IMAGE = True,
       b64decode = (\<lambda>s. if s = ''aGk='' then Inr [104, 105] else Inl BinasciiError),
       pil_open = (\<lambda>b. Inl UnidentifiedImageError),
       pil_open_path = (\<lambda>v. Inl OSError),
       pil_save_png = (\<lambda>img. Inr []),
       base_init = (\<lambda>config. None) \<rparr>"

section \<open>Properties of the selection loop\<close>

lemma select_loop_coercible:
  "select_loop c k xs ml mi = Inr r \<Longrightarrow> x \<in> set xs \<Longrightarrow> x \<noteq> PNone \<Longrightarrow> \<exists>t. py_str c x = Inr t"
  by (induction xs arbitrary: k ml mi) (auto split: if_splits sum.splits simp: Let_def)

lemma select_loop_keep:
  "select_loop c k xs ml mi = Inr r \<Longrightarrow> \<forall>x\<in>set xs. x \<noteq> PNone \<longrightarrow> coerced_length c x \<le> ml \<Longrightarrow> r = mi"
  by (induction xs arbitrary: k ml mi) (auto split: if_splits sum.splits simp: Let_def coerced_length_def)

lemma select_loop_pick:
  "select_loop c k xs ml mi = Inr r \<Longrightarrow> \<exists>x\<in>set xs. x \<noteq> PNone \<and> coerced_length c x > ml \<Longrightarrow>
   \<exists>i<length xs. r = Some (k + i) \<and> xs ! i \<noteq> PNone \<and> coerced_length c (xs ! i) > ml \<and>
     (\<forall>j<length xs. xs ! j \<noteq> PNone \<longrightarrow> coerced_length c (xs ! j) \<le> coerced_length c (xs ! i)) \<and>
     (\<forall>j<i. xs ! j \<noteq> PNone \<longrightarrow> coerced_length c (xs ! j) < coerced_length c (xs ! i))"
proof (induction xs arbitrary: k ml mi)
  case Nil
  then show ?case by simp
next
  case (Cons x xs)
  show ?case
  proof (cases "x = PNone")
    case True
    with Cons.prems have run: "select_loop c (Suc k) xs ml mi = Inr r"
      and ex: "\<exists>y\<in>set xs. y \<noteq> PNone \<and> coerced_length c y > ml" by auto
    from Cons.IH[OF run ex] obtain i where i: "i < length xs" "r = Some (Suc k + i)"
      "xs ! i \<noteq> PNone" "coerced_length c (xs ! i) > ml"
      "\<forall>j<length xs. xs ! j \<noteq> PNone \<longrightarrow> coerced_length c (xs ! j) \<le> coerced_length c (xs ! i)"
      "\<forall>j<i. xs ! j \<noteq> PNone \<longrightarrow> coerced_length c (xs ! j) < coerced_length c (xs ! i)" by blast
    show ?thesis
    proof (intro exI[of _ "Suc i"] conjI allI impI)
      show "Suc i < length (x # xs)" using i by simp
      show "r = Some (k + Suc i)" using i by simp
      show "(x # xs) ! Suc i \<noteq> PNone" using i by simp
      show "ml < coerced_length c ((x # xs) ! Suc i)" using i by simp
    next
      fix j assume "j < length (x # xs)" "(x # xs) ! j \<noteq> PNone"
      then show "coerced_length c ((x # xs) ! j) \<le> coerced_length c ((x # xs) ! Suc i)"
        using i True by (cases j) auto
    next
      fix j assume "j < Suc i" "(x # xs) ! j \<noteq> PNone"
      then show "coerced_length c ((x # xs) ! j) < coerced_length c ((x # xs) ! Suc i)"
        using i True by (cases j) auto
    qed
  next
    case False
    with Cons.prems obtain t where t: "py_str c x = Inr t"
      by (auto split: sum.splits)
    have sx: "coerced_length c x = int (length t)" using t by (simp add: coerced_length_def)
    show ?thesis
    proof (cases "int (length t) > ml")
      case gt: True
      with False t Cons.prems have run: "select_loop c (Suc k) xs (int (length t)) (Some k) = Inr r"
        by (simp add: Let_def)
      show ?thesis
      proof (cases "\<exists>y\<in>set xs. y \<noteq> PNone \<and> coerced_length c y > int (length t)")
        case True
        from Cons.IH[OF run True] obtain i where i: "i < length xs" "r = Some (Suc k + i)"
          "xs ! i \<noteq> PNone" "coerced_length c (xs ! i) > int (length t)"
          "\<forall>j<length xs. xs ! j \<noteq> PNone \<longrightarrow> coerced_length c (xs ! j) \<le> coerced_length c (xs ! i)"
          "\<forall>j<i. xs ! j \<noteq> PNone \<longrightarrow> coerced_length c (xs ! j) < coerced_length c (xs ! i)" by blast
        show ?thesis
        proof (intro exI[of _ "Suc i"] conjI allI impI)
          show "Suc i < length (x # xs)" using i by simp
          show "r = Some (k + Suc i)" using i by simp
          show "(x # xs) ! Suc i \<noteq> PNone" using i by simp
          show "ml < coerced_length c ((x # xs) ! Suc i)" using i gt by simp
        next
          fix j assume "j < length (x # xs)" "(x # xs) ! j \<noteq> PNone"
          then show "coerced_length c ((x # xs) ! j) \<le> coerced_length c ((x # xs) ! Suc i)"
            using i sx by (cases j) auto
        next
          fix j assume "j < Suc i" "(x # xs) ! j \<noteq> PNone"
          then show "coerced_length c ((x # xs) ! j) < coerced_length c ((x # xs) ! Suc i)"
            using i sx by (cases j) auto
        qed
      next
        case none: False
        then have le: "\<forall>y\<in>set xs. y \<noteq> PNone \<longrightarrow> coerced_length c y \<le> int (length t)" by auto
        from select_loop_keep[OF run le] have r: "r = Some k" .
        show ?thesis
        proof (intro exI[of _ 0] conjI allI impI)
          show "0 < length (x # xs)" by simp
          show "r = Some (k + 0)" using r by simp
          show "(x # xs) ! 0 \<noteq> PNone" using False by simp
          show "ml < coerced_length c ((x # xs) ! 0)" using gt sx by simp
        next
          fix j assume "j < length (x # xs)" "(x # xs) ! j \<noteq> PNone"
          then show "coerced_length c ((x # xs) ! j) \<le> coerced_length c ((x # xs) ! 0)"
            using le sx by (cases j) auto
        next
          fix j assume "j < (0::nat)" 
          then show "coerced_length c ((x # xs) ! j) < coerced_length c ((x # xs) ! 0)" by simp
        qed
      qed
    next
      case le: False
      with False t Cons.prems have run: "select_loop c (Suc k) xs ml mi = Inr r"
        by (simp add: Let_def)
      from Cons.prems(2) le sx False have ex: "\<exists>y\<in>set xs. y \<noteq> PNone \<and> coerced_length c y > ml" by auto
      from Cons.IH[OF run ex] obtain i where i: "i < length xs" "r = Some (Suc k + i)"
        "xs ! i \<noteq> PNone" "coerced_length c (xs ! i) > ml"
        "\<forall>j<length xs. xs ! j \<noteq> PNone \<longrightarrow> coerced_length c (xs ! j) \<le> coerced_length c (xs ! i)"
        "\<forall>j<i. xs ! j \<noteq> PNone \<longrightarrow> coerced_length c (xs ! j) < coerced_length c (xs ! i)" by blast
      show ?thesis
      proof (intro exI[of _ "Suc i"] conjI allI impI)
        show "Suc i < length (x # xs)" using i by simp
        show "r = Some (k + Suc i)" using i by simp
        show "(x # xs) ! Suc i \<noteq> PNone" using i by simp
        show "ml < coerced_length c ((x # xs) ! Suc i)" using i by simp
      next
        fix j assume "j < length (x # xs)" "(x # xs) ! j \<noteq> PNone"
        then show "coerced_length c ((x # xs) ! j) \<le> coerced_length c ((x # xs) ! Suc i)"
          using i sx le by (cases j) auto
      next
        fix j assume "j < Suc i" "(x # xs) ! j \<noteq> PNone"
        then show "coerced_length c ((x # xs) ! j) < coerced_length c ((x # xs) ! Suc i)"
          using i sx le by (cases j) auto
      qed
    qed
  qed
qed

lemma select_loop_total:
  "\<forall>x\<in>set xs. x \<noteq> PNone \<longrightarrow> (\<exists>t. py_str c x = Inr t) \<Longrightarrow> \<exists>r. select_loop c k xs ml mi = Inr r"
  by (induction xs arbitrary: k ml mi) (auto simp: Let_def)

lemma have_matching_lengths3:
  "have_matching_lengths [a, b, c] \<longleftrightarrow> length a = length b \<and> length b = length c"
proof -
  have "card {x, y, z} = 1 \<longleftrightarrow> x = y \<and> y = z" for x y z :: nat
    by (auto simp: card_insert_if)
  then show ?thesis by (simp add: have_matching_lengths_def)
qed

lemma select_longest_index_bound:
  assumes "select_longest_index c xs = Inr (Some i)"
  shows "i < length xs"
proof (cases "\<exists>x\<in>set xs. x \<noteq> PNone \<and> coerced_length c x > - 1")
  case True
  from select_loop_pick[OF assms[unfolded select_longest_index_def] True]
  show ?thesis by auto
next
  case False
  then have "\<forall>x\<in>set xs. x \<noteq> PNone \<longrightarrow> coerced_length c x \<le> - 1" by auto
  from select_loop_keep[OF assms[unfolded select_longest_index_def] this]
  show ?thesis by simp
qed

lemma py_str_not_IndexError: "py_str c v \<noteq> Inl IndexError"
  by (auto simp: py_str_def split: pyval.splits sum.splits str_exn.splits)

lemma stripped_at_IndexError:
  "stripped_at c xs i = Inl IndexError \<longleftrightarrow> \<not> i < length xs"
  using py_str_not_IndexError[of c "xs ! i"]
  by (auto simp: stripped_at_def py_index_def split: sum.splits)

lemma select_loop_not_IndexError: "select_loop c k xs ml mi \<noteq> Inl IndexError"
  using py_str_not_IndexError
  by (induction xs arbitrary: k ml mi) (auto simp: Let_def split: sum.splits)

lemma qa_try_body_no_IndexError: "qa_try_body c p ex \<noteq> Inl IndexError"
proof
  assume a: "qa_try_body c p ex = Inl IndexError"
  define src where "src = get_source_container p ex"
  define qs where "qs = as_list (dict_get src (question_field p))"
  define es where "es = as_list (dict_get src (explanation_field p))"
  define as where "as = as_list (dict_get src (answer_field p))"
  from a have ne: "qs \<noteq> []" "es \<noteq> []" "as \<noteq> []" and ml: "have_matching_lengths [qs, es, as]"
    by (auto simp: qa_try_body_def Let_def src_def qs_def es_def as_def split: if_splits)
  from a ne ml obtain i where i: "select_longest_index c es = Inr (Some i)"
    using select_loop_not_IndexError[of c 0 es "- 1" None]
    by (auto simp: qa_try_body_def Let_def src_def qs_def es_def as_def select_longest_index_def
        split: if_splits sum.splits option.splits)
  from select_longest_index_bound[OF i] ml have b: "i < length qs" "i < length es" "i < length as"
    by (simp_all add: have_matching_lengths3)
  from a ne ml i have
    "stripped_at c qs i = Inl IndexError \<or> stripped_at c es i = Inl IndexError
      \<or> stripped_at c as i = Inl IndexError"
    unfolding qa_try_body_def Let_def src_def[symmetric] qs_def[symmetric] es_def[symmetric] as_def[symmetric]
    by (auto split: if_splits sum.splits)
  with b show False by (simp add: stripped_at_IndexError)
qed

text \<open>
  C2. The selection step returns the smallest index among the entries that are not
  \<^verbatim>\<open>None\<close> and whose text \<^verbatim>\<open>str(item)\<close> is longest: no entry is longer and every earlier one
  is strictly shorter; entries that are \<^verbatim>\<open>None\<close> are passed over and keep their place in the
  count. It returns no index exactly when every entry is \<^verbatim>\<open>None\<close>, and then
  \<^verbatim>\<open>process_example\<close> drops the record. It returns whenever \<^verbatim>\<open>str\<close> raises on no entry.
  For \<^verbatim>\<open>['a','bbb','cc']\<close> and for \<^verbatim>\<open>[None,'ab']\<close> the index is 1.
\<close>

theorem select_longest_index_first_longest:
  "(\<forall>r. select_longest_index coerce xs = Inr r \<longrightarrow>
      (r = None \<longleftrightarrow> (\<forall>x\<in>set xs. x = PNone)) \<and>
      (\<forall>x\<in>set xs. x \<noteq> PNone \<longrightarrow> (\<exists>t. py_str coerce x = Inr t)) \<and>
      (\<forall>i. r = Some i \<longrightarrow>
          i < length xs \<and> xs ! i \<noteq> PNone \<and>
          (\<forall>j<length xs. xs ! j \<noteq> PNone \<longrightarrow>
              coerced_length coerce (xs ! j) \<le> coerced_length coerce (xs ! i)) \<and>
          (\<forall>j<i. xs ! j \<noteq> PNone \<longrightarrow>
              coerced_length coerce (xs ! j) < coerced_length coerce (xs ! i)))) \<and>
   ((\<forall>x\<in>set xs. x \<noteq> PNone \<longrightarrow> (\<exists>t. py_str coerce x = Inr t)) \<longrightarrow>
      (\<exists>r. select_longest_index coerce xs = Inr r)) \<and>
   ((\<forall>x\<in>set (as_list (dict_get (get_source_container p example) (explanation_field p))).
        x = PNone) \<longrightarrow>
      qa_process_example coerce p example = Inr None) \<and>
   select_longest_index coerce [PStr ''a'', PStr ''bbb'', PStr ''cc''] = Inr (Some 1) \<and>
   select_longest_index coerce [PNone, PStr ''ab''] = Inr (Some 1)"
proof (intro conjI allI impI)
  fix r assume run: "select_longest_index coerce xs = Inr r"
  then have loop: "select_loop coerce 0 xs (- 1) None = Inr r"
    by (simp add: select_longest_index_def)
  show co: "\<forall>x\<in>set xs. x \<noteq> PNone \<longrightarrow> (\<exists>t. py_str coerce x = Inr t)"
    using select_loop_coercible[OF loop] by blast
  have pos: "coerced_length coerce x > - 1" if "x \<in> set xs" "x \<noteq> PNone" for x
    using co that by (auto simp: coerced_length_def)
  show "r = None \<longleftrightarrow> (\<forall>x\<in>set xs. x = PNone)"
  proof
    assume "r = None"
    show "\<forall>x\<in>set xs. x = PNone"
    proof (rule ccontr)
      assume "\<not> (\<forall>x\<in>set xs. x = PNone)"
      then have "\<exists>x\<in>set xs. x \<noteq> PNone \<and> coerced_length coerce x > - 1"
        using pos by blast
      from select_loop_pick[OF loop this] \<open>r = None\<close> show False by auto
    qed
  next
    assume "\<forall>x\<in>set xs. x = PNone"
    then have "\<forall>x\<in>set xs. x \<noteq> PNone \<longrightarrow> coerced_length coerce x \<le> - 1" by simp
    from select_loop_keep[OF loop this] show "r = None" .
  qed
  fix i assume ri: "r = Some i"
  have "\<exists>x\<in>set xs. x \<noteq> PNone \<and> coerced_length coerce x > - 1"
  proof (rule ccontr)
    assume "\<not> ?thesis"
    then have "\<forall>x\<in>set xs. x \<noteq> PNone \<longrightarrow> coerced_length coerce x \<le> - 1" by auto
    from select_loop_keep[OF loop this] ri show False by simp
  qed
  from select_loop_pick[OF loop this] ri
  have pick: "i < length xs" "xs ! i \<noteq> PNone"
    "\<forall>j<length xs. xs ! j \<noteq> PNone \<longrightarrow> coerced_length coerce (xs ! j) \<le> coerced_length coerce (xs ! i)"
    "\<forall>j<i. xs ! j \<noteq> PNone \<longrightarrow> coerced_length coerce (xs ! j) < coerced_length coerce (xs ! i)"
    by auto
  show "i < length xs" by (rule pick)
  show "xs ! i \<noteq> PNone" by (rule pick)
  { fix j assume "j < length xs" "xs ! j \<noteq> PNone"
    then show "coerced_length coerce (xs ! j) \<le> coerced_length coerce (xs ! i)"
      using pick(3) by blast }
  { fix j assume "j < i" "xs ! j \<noteq> PNone"
    then show "coerced_length coerce (xs ! j) < coerced_length coerce (xs ! i)"
      using pick(4) by blast }
next
  assume "\<forall>x\<in>set xs. x \<noteq> PNone \<longrightarrow> (\<exists>t. py_str coerce x = Inr t)"
  then show "\<exists>r. select_longest_index coerce xs = Inr r"
    unfolding select_longest_index_def by (rule select_loop_total)
next
  define es where "es = as_list (dict_get (get_source_container p example) (explanation_field p))"
  assume "\<forall>x\<in>set (as_list (dict_get (get_source_container p example) (explanation_field p))). x = PNone"
  then have all: "\<forall>x\<in>set es. x = PNone" by (simp add: es_def)
  then have "\<forall>x\<in>set es. x \<noteq> PNone \<longrightarrow> coerced_length coerce x \<le> - 1" by simp
  moreover from all have "\<exists>r. select_loop coerce 0 es (- 1) None = Inr r"
    by (intro select_loop_total) simp
  ultimately have "select_longest_index coerce es = Inr None"
    unfolding select_longest_index_def using select_loop_keep by blast
  then show "qa_process_example coerce p example = Inr None"
    by (simp add: qa_process_example_def qa_try_body_def Let_def es_def)
next
  show "select_longest_index coerce [PStr ''a'', PStr ''bbb'', PStr ''cc''] = Inr (Some 1)"
    by (simp add: select_longest_index_def py_str_def)
  show "select_longest_index coerce [PNone, PStr ''ab''] = Inr (Some 1)"
    by (simp add: select_longest_index_def py_str_def)
qed

theorem select_longest_index_first_longest_witness:
  "select_longest_index (\<lambda>v. Inl (StrException TypeError)) [PStr ''bb'', PNone, PStr ''bb'', PStr ''a'']
     = Inr (Some 0) \<and>
   (0::nat) < length [PStr ''bb'', PNone, PStr ''bb'', PStr ''a''] \<and>
   coerced_length (\<lambda>v. Inl (StrException TypeError)) ([PStr ''bb'', PNone, PStr ''bb'', PStr ''a''] ! 2)
     \<le> coerced_length (\<lambda>v. Inl (StrException TypeError)) ([PStr ''bb'', PNone, PStr ''bb'', PStr ''a''] ! 0) \<and>
   qa_process_example (\<lambda>v. Inl (StrException TypeError))
     \<lparr> qa_pairs_field = ''qa_pairs'', question_field = ''question'',
       explanation_field = ''explanation'', answer_field = ''answer'',
       problem_field = ''problem'', solution_field = ''solution'',
       keep_unmapped = True, remove_source_fields = False \<rparr>
     [(''qa_pairs'', PDict [(''question'', PList [PStr ''q'']),
                            (''explanation'', PList [PNone]),
                            (''answer'', PList [PStr ''a''])])] = Inr None"
  using select_longest_index_first_longest
    [of "\<lambda>v. Inl (StrException TypeError)" "[PStr ''bb'', PNone, PStr ''bb'', PStr ''a'']"
        "\<lparr> qa_pairs_field = ''qa_pairs'', question_field = ''question'',
           explanation_field = ''explanation'', answer_field = ''answer'',
           problem_field = ''problem'', solution_field = ''solution'',
           keep_unmapped = True, remove_source_fields = False \<rparr>"
        "[(''qa_pairs'', PDict [(''question'', PList [PStr ''q'']),
                                (''explanation'', PList [PNone]),
                                (''answer'', PList [PStr ''a''])])]"]
  by (simp add: select_longest_index_def py_str_def coerced_length_def
      get_source_container_def dict_get_def as_list_def)

text \<open>
  C10. An index the selection step returns is a position of the explanation sequence; with
  the three sequences of equal length, the three reads at that index are in range, and the
  body of \<^verbatim>\<open>process_example\<close> raises no \<^verbatim>\<open>IndexError\<close>.
\<close>

theorem selected_index_in_bounds:
  "(\<forall>i. select_longest_index coerce explanations = Inr (Some i) \<longrightarrow>
      i < length explanations \<and>
      (have_matching_lengths [questions, explanations, answers] \<longrightarrow>
         py_index questions i = Inr (questions ! i) \<and>
         py_index explanations i = Inr (explanations ! i) \<and>
         py_index answers i = Inr (answers ! i))) \<and>
   qa_try_body coerce p example \<noteq> Inl IndexError"
proof (intro conjI allI impI)
  fix i assume sel: "select_longest_index coerce explanations = Inr (Some i)"
  show b: "i < length explanations" by (rule select_longest_index_bound[OF sel])
  assume "have_matching_lengths [questions, explanations, answers]"
  then have eq: "length questions = length explanations" "length answers = length explanations"
    by (simp_all add: have_matching_lengths3)
  show "py_index questions i = Inr (questions ! i)" using b eq by (simp add: py_index_def)
  show "py_index explanations i = Inr (explanations ! i)" using b by (simp add: py_index_def)
  show "py_index answers i = Inr (answers ! i)" using b eq by (simp add: py_index_def)
next
  show "qa_try_body coerce p example \<noteq> Inl IndexError" by (rule qa_try_body_no_IndexError)
qed

theorem selected_index_in_bounds_witness:
  "select_longest_index (\<lambda>v. Inl (StrException TypeError)) [PNone, PStr ''ab''] = Inr (Some 1) \<and>
   (1::nat) < length [PNone, PStr ''ab''] \<and>
   have_matching_lengths [[PStr ''q1'', PStr ''q2''], [PNone, PStr ''ab''], [PInt 1, PInt 2]] \<and>
   py_index [PStr ''q1'', PStr ''q2''] 1 = Inr (PStr ''q2'') \<and>
   py_index [PInt 1, PInt 2] 1 = Inr (PInt 2)"
  using selected_index_in_bounds
    [of "\<lambda>v. Inl (StrException TypeError)" "[PNone, PStr ''ab'']" "[PStr ''q1'', PStr ''q2'']"
        "[PInt 1, PInt 2]"]
  by (simp add: select_longest_index_def py_str_def have_matching_lengths_def)

section \<open>The record the selector returns\<close>

lemma keys_delete: "fst ` set (AList.delete k al) = fst ` set al - {k}"
proof -
  have "set (map fst (AList.delete k al)) = set (map fst al) - {k}"
    by (simp only: delete_keys set_removeAll)
  then show ?thesis by simp
qed

lemma keys_remove_sources: "fst ` set (remove_sources p al) = fst ` set al - removed_fields p"
  by (auto simp: remove_sources_def removed_fields_def keys_delete)

lemma map_of_remove_sources:
  "k \<notin> removed_fields p \<Longrightarrow> map_of (remove_sources p al) k = map_of al k"
  by (auto simp: remove_sources_def removed_fields_def delete_conv' split: if_splits)

lemma keys_build_result:
  "fst ` set (build_result p ex q e a) =
     ({problem_field p, solution_field p} \<union> (if keep_unmapped p then fst ` set ex else {}))
       - removed_fields p"
  by (auto simp: build_result_def Let_def keys_remove_sources dom_update)

lemma map_of_build_result_solution:
  "solution_field p \<notin> removed_fields p \<Longrightarrow>
   map_of (build_result p ex q e a) (solution_field p) = Some (PStr (format_solution e a))"
  by (simp add: build_result_def Let_def map_of_remove_sources update_conv')

lemma map_of_build_result_problem:
  "problem_field p \<notin> removed_fields p \<Longrightarrow> problem_field p \<noteq> solution_field p \<Longrightarrow>
   map_of (build_result p ex q e a) (problem_field p) = Some (PStr q)"
  by (simp add: build_result_def Let_def map_of_remove_sources update_conv')

lemma stripped_at_Inr:
  "stripped_at c xs i = Inr s \<longleftrightarrow> i < length xs \<and> (\<exists>t. py_str c (xs ! i) = Inr t \<and> s = strip t)"
  by (auto simp: stripped_at_def py_index_def split: sum.splits)

lemma qa_try_body_Some:
  assumes "qa_try_body c p ex = Inr (Some r)"
  defines "src \<equiv> get_source_container p ex"
  defines "qs \<equiv> as_list (dict_get src (question_field p))"
  defines "es \<equiv> as_list (dict_get src (explanation_field p))"
  defines "as \<equiv> as_list (dict_get src (answer_field p))"
  shows "\<exists>i q e a. qs \<noteq> [] \<and> es \<noteq> [] \<and> as \<noteq> [] \<and> have_matching_lengths [qs, es, as] \<and>
           select_longest_index c es = Inr (Some i) \<and>
           stripped_at c qs i = Inr q \<and> stripped_at c es i = Inr e \<and> stripped_at c as i = Inr a \<and>
           q \<noteq> [] \<and> e \<noteq> [] \<and> a \<noteq> [] \<and> r = build_result p ex q e a"
  using assms(1)
  unfolding qa_try_body_def Let_def src_def[symmetric] qs_def[symmetric] es_def[symmetric] as_def[symmetric]
  by (auto split: if_splits sum.splits option.splits)

lemma qa_try_body_dropped:
  assumes "qs = as_list (dict_get (get_source_container p ex) (question_field p))"
    and "es = as_list (dict_get (get_source_container p ex) (explanation_field p))"
    and "as = as_list (dict_get (get_source_container p ex) (answer_field p))"
    and "qs = [] \<or> es = [] \<or> as = [] \<or> \<not> have_matching_lengths [qs, es, as]"
  shows "qa_try_body c p ex = Inr None"
  using assms by (auto simp: qa_try_body_def Let_def)

lemma py_str_raises:
  "py_str c v = Inl exc \<Longrightarrow> is_Exception exc \<or> (\<exists>b. c v = Inl (StrBaseException b))"
  by (auto simp: py_str_def is_Exception_def split: pyval.splits sum.splits str_exn.splits)

lemma select_loop_raises:
  "select_loop c k xs ml mi = Inl exc \<Longrightarrow>
   is_Exception exc \<or> (\<exists>v b. c v = Inl (StrBaseException b))"
proof (induction xs arbitrary: k ml mi)
  case Nil
  then show ?case by simp
next
  case (Cons x xs)
  show ?case
  proof (cases "x = PNone")
    case True
    with Cons show ?thesis by simp
  next
    case False
    show ?thesis
    proof (cases "py_str c x")
      case (Inl e)
      with False Cons.prems have "e = exc" by simp
      with py_str_raises[OF Inl] show ?thesis by blast
    next
      case (Inr t)
      with False Cons.prems Cons.IH show ?thesis
        by (auto simp: Let_def split: if_splits)
    qed
  qed
qed

lemma stripped_at_raises:
  "stripped_at c xs i = Inl exc \<Longrightarrow>
   is_Exception exc \<or> (\<exists>v b. c v = Inl (StrBaseException b))"
  using py_str_raises[of c "xs ! i" exc]
  by (auto simp: stripped_at_def py_index_def is_Exception_def split: sum.splits if_splits)

lemma qa_try_body_raises:
  assumes "qa_try_body c p ex = Inl exc"
  shows "is_Exception exc \<or> (\<exists>v b. c v = Inl (StrBaseException b))"
proof -
  define src where "src = get_source_container p ex"
  define qs where "qs = as_list (dict_get src (question_field p))"
  define es where "es = as_list (dict_get src (explanation_field p))"
  define as where "as = as_list (dict_get src (answer_field p))"
  from assms have
    "select_longest_index c es = Inl exc \<or>
     (\<exists>i. stripped_at c qs i = Inl exc \<or> stripped_at c es i = Inl exc
          \<or> stripped_at c as i = Inl exc)"
    unfolding qa_try_body_def Let_def src_def[symmetric] qs_def[symmetric] es_def[symmetric]
      as_def[symmetric]
    by (auto split: if_splits sum.splits option.splits)
  then show ?thesis
    using select_loop_raises[of c 0 es "- 1" None exc] stripped_at_raises[of c _ _ exc]
    by (auto simp: select_longest_index_def)
qed

text \<open>
  C1 as stated fails on two kinds of input. A record with three
  non-empty sequences of equal length on which \<^verbatim>\<open>str\<close> raises is, with \<^verbatim>\<open>keep_unmapped\<close> true,
  returned by the handler of line 84 as it came in: it is not dropped and has no solution
  field. And a field is read back under its name only: where the problem field and the
  solution field have one name the problem field holds the solution, and where
  \<^verbatim>\<open>remove_source_fields\<close> removes the name of an output field that field is not in the
  record.
\<close>

theorem emitted_solution_counterexample:
  "as_list (dict_get (get_source_container qa_defaults
      [(''qa_pairs'', PDict [(''question'', PStr ''q''), (''explanation'', PObject 0),
                             (''answer'', PStr ''4'')])]) (question_field qa_defaults))
     = [PStr ''q''] \<and>
   as_list (dict_get (get_source_container qa_defaults
      [(''qa_pairs'', PDict [(''question'', PStr ''q''), (''explanation'', PObject 0),
                             (''answer'', PStr ''4'')])]) (explanation_field qa_defaults))
     = [PObject 0] \<and>
   as_list (dict_get (get_source_container qa_defaults
      [(''qa_pairs'', PDict [(''question'', PStr ''q''), (''explanation'', PObject 0),
                             (''answer'', PStr ''4'')])]) (answer_field qa_defaults))
     = [PStr ''4''] \<and>
   qa_process_example (\<lambda>v. Inl (StrException TypeError)) qa_defaults
      [(''qa_pairs'', PDict [(''question'', PStr ''q''), (''explanation'', PObject 0),
                             (''answer'', PStr ''4'')])]
     = Inr (Some
      [(''qa_pairs'', PDict [(''question'', PStr ''q''), (''explanation'', PObject 0),
                             (''answer'', PStr ''4'')])]) \<and>
   map_of
      [(''qa_pairs'', PDict [(''question'', PStr ''q''), (''explanation'', PObject 0),
                             (''answer'', PStr ''4'')])]
      (solution_field qa_defaults) = None \<and>
   qa_process_example (\<lambda>v. Inl (StrException TypeError))
      (qa_defaults\<lparr>problem_field := ''text'', solution_field := ''text''\<rparr>)
      [(''qa_pairs'', PDict [(''question'', PStr ''q''), (''explanation'', PStr ''because''),
                             (''answer'', PStr ''4'')])]
     = Inr (Some
      [(''qa_pairs'', PDict [(''question'', PStr ''q''), (''explanation'', PStr ''because''),
                             (''answer'', PStr ''4'')]),
       (''text'', PStr (''because'' @ [CHR 0x0A, CHR 0x0A] @ ''The answer is ''
                          @ [CHR 0x5C] @ ''boxed{4}.''))]) \<and>
   PStr (''because'' @ [CHR 0x0A, CHR 0x0A] @ ''The answer is '' @ [CHR 0x5C] @ ''boxed{4}.'')
     \<noteq> PStr (strip ''q'') \<and>
   qa_process_example (\<lambda>v. Inl (StrException TypeError))
      (qa_defaults\<lparr>solution_field := ''qa_pairs'', remove_source_fields := True\<rparr>)
      [(''qa_pairs'', PDict [(''question'', PStr ''q''), (''explanation'', PStr ''because''),
                             (''answer'', PStr ''4'')])]
     = Inr (Some [(''problem'', PStr ''q'')]) \<and>
   map_of [(''problem'', PStr ''q'')] ''qa_pairs'' = None \<and>
   qa_process_example (\<lambda>v. Inl (StrException TypeError))
      (qa_defaults\<lparr>problem_field := ''qa_pairs'', remove_source_fields := True\<rparr>)
      [(''qa_pairs'', PDict [(''question'', PStr ''q''), (''explanation'', PStr ''because''),
                             (''answer'', PStr ''4'')])]
     = Inr (Some
      [(''solution'', PStr (''because'' @ [CHR 0x0A, CHR 0x0A] @ ''The answer is ''
                              @ [CHR 0x5C] @ ''boxed{4}.''))]) \<and>
   map_of
      [(''solution'', PStr (''because'' @ [CHR 0x0A, CHR 0x0A] @ ''The answer is ''
                              @ [CHR 0x5C] @ ''boxed{4}.''))] ''qa_pairs'' = None"
  by (simp add: qa_process_example_def qa_try_body_def qa_defaults_def
      get_source_container_def dict_get_def is_Exception_def
      as_list_def have_matching_lengths_def select_longest_index_def py_str_def
      stripped_at_def py_index_def strip_def is_space_def build_result_def
      remove_sources_def format_solution_def Let_def)

text \<open>
  C1, as amended. A record that \<^verbatim>\<open>process_example\<close> does not drop and in whose
  processing no step raises:
  its three sequences are non-empty and of equal length, the selection step returns an
  index \<open>i\<close>, \<^verbatim>\<open>str\<close> returns texts \<open>q\<close>, \<open>e\<close>, \<open>a\<close> for the question, the explanation and the
  answer at \<open>i\<close>, and the record \<open>r\<close> returned is the one lines 71 to 82 build from the three
  stripped texts. Its solution field is the stripped \<open>e\<close>, two newline characters,
  \<^verbatim>\<open>The answer is \boxed{\<close>, the stripped \<open>a\<close> and \<^verbatim>\<open>}.\<close>, where the name of the solution field
  is not one \<^verbatim>\<open>remove_source_fields\<close> removes; its problem field is the stripped \<open>q\<close>, where the
  name of the problem field is not removed either and is not the name of the solution field.
\<close>

theorem emitted_solution_is_template:
  assumes "source = get_source_container p example"
    and "questions = as_list (dict_get source (question_field p))"
    and "explanations = as_list (dict_get source (explanation_field p))"
    and "answers = as_list (dict_get source (answer_field p))"
    and "qa_process_example coerce p example = Inr (Some r)"
    and "\<forall>exc. qa_try_body coerce p example \<noteq> Inl exc"
  shows "questions \<noteq> [] \<and> explanations \<noteq> [] \<and> answers \<noteq> [] \<and>
         length explanations = length questions \<and> length answers = length questions \<and>
         (\<exists>i q e a.
            select_longest_index coerce explanations = Inr (Some i) \<and>
            i < length explanations \<and>
            py_str coerce (questions ! i) = Inr q \<and>
            py_str coerce (explanations ! i) = Inr e \<and>
            py_str coerce (answers ! i) = Inr a \<and>
            r = build_result p example (strip q) (strip e) (strip a) \<and>
            (solution_field p \<notin> removed_fields p \<longrightarrow>
               map_of r (solution_field p) =
                 Some (PStr (strip e @ [CHR 0x0A, CHR 0x0A] @ ''The answer is '' @ [CHR 0x5C]
                               @ ''boxed{'' @ strip a @ ''}.''))) \<and>
            (problem_field p \<notin> removed_fields p \<and> problem_field p \<noteq> solution_field p \<longrightarrow>
               map_of r (problem_field p) = Some (PStr (strip q))))"
proof -
  from assms(5,6) have body: "qa_try_body coerce p example = Inr (Some r)"
    by (cases "qa_try_body coerce p example") (simp_all add: qa_process_example_def)
  from qa_try_body_Some[OF body] assms(1-4)
  obtain i sq se sa where ne: "questions \<noteq> []" "explanations \<noteq> []" "answers \<noteq> []"
    and ml: "have_matching_lengths [questions, explanations, answers]"
    and sel: "select_longest_index coerce explanations = Inr (Some i)"
    and q': "stripped_at coerce questions i = Inr sq"
    and e': "stripped_at coerce explanations i = Inr se"
    and a': "stripped_at coerce answers i = Inr sa"
    and r: "r = build_result p example sq se sa"
    by auto
  from q' obtain q where q: "py_str coerce (questions ! i) = Inr q" "sq = strip q"
    by (auto simp: stripped_at_Inr)
  from e' obtain e where e: "i < length explanations"
      "py_str coerce (explanations ! i) = Inr e" "se = strip e"
    by (auto simp: stripped_at_Inr)
  from a' obtain a where a: "py_str coerce (answers ! i) = Inr a" "sa = strip a"
    by (auto simp: stripped_at_Inr)
  have built: "r = build_result p example (strip q) (strip e) (strip a)"
    using r q(2) e(3) a(2) by simp
  have sol: "map_of r (solution_field p) = Some (PStr (strip e @ [CHR 0x0A, CHR 0x0A]
      @ ''The answer is '' @ [CHR 0x5C] @ ''boxed{'' @ strip a @ ''}.''))"
    if "solution_field p \<notin> removed_fields p"
    using map_of_build_result_solution[OF that, of example "strip q" "strip e" "strip a"] built
    by (simp add: format_solution_def)
  have prob: "map_of r (problem_field p) = Some (PStr (strip q))"
    if "problem_field p \<notin> removed_fields p" "problem_field p \<noteq> solution_field p"
    using map_of_build_result_problem[OF that, of example "strip q" "strip e" "strip a"] built
    by simp
  from ml have len: "length explanations = length questions" "length answers = length questions"
    by (simp_all add: have_matching_lengths3)
  from sel e(1,2) q(1) a(1) built sol prob
  have "\<exists>i q e a.
      select_longest_index coerce explanations = Inr (Some i) \<and>
      i < length explanations \<and>
      py_str coerce (questions ! i) = Inr q \<and>
      py_str coerce (explanations ! i) = Inr e \<and>
      py_str coerce (answers ! i) = Inr a \<and>
      r = build_result p example (strip q) (strip e) (strip a) \<and>
      (solution_field p \<notin> removed_fields p \<longrightarrow>
         map_of r (solution_field p) =
           Some (PStr (strip e @ [CHR 0x0A, CHR 0x0A] @ ''The answer is '' @ [CHR 0x5C]
                         @ ''boxed{'' @ strip a @ ''}.''))) \<and>
      (problem_field p \<notin> removed_fields p \<and> problem_field p \<noteq> solution_field p \<longrightarrow>
         map_of r (problem_field p) = Some (PStr (strip q)))"
    by blast
  with ne len show ?thesis by blast
qed

theorem emitted_solution_is_template_witness:
  "qa_process_example (\<lambda>v. Inl (StrException TypeError)) qa_defaults
     [(''id'', PInt 7),
      (''qa_pairs'', PDict [(''question'', PList [PStr '' q1 '', PStr ''q2'']),
                            (''explanation'', PList [PStr ''short'', PStr '' longer one'']),
                            (''answer'', PList [PStr ''a1'', PStr '' 42 ''])])]
   = Inr (Some
     [(''id'', PInt 7),
      (''qa_pairs'', PDict [(''question'', PList [PStr '' q1 '', PStr ''q2'']),
                            (''explanation'', PList [PStr ''short'', PStr '' longer one'']),
                            (''answer'', PList [PStr ''a1'', PStr '' 42 ''])]),
      (''problem'', PStr ''q2''),
      (''solution'', PStr (''longer one'' @ [CHR 0x0A, CHR 0x0A] @ ''The answer is ''
                            @ [CHR 0x5C] @ ''boxed{42}.''))]) \<and>
   qa_try_body (\<lambda>v. Inl (StrException TypeError)) qa_defaults
     [(''id'', PInt 7),
      (''qa_pairs'', PDict [(''question'', PList [PStr '' q1 '', PStr ''q2'']),
                            (''explanation'', PList [PStr ''short'', PStr '' longer one'']),
                            (''answer'', PList [PStr ''a1'', PStr '' 42 ''])])]
   = Inr (Some
     [(''id'', PInt 7),
      (''qa_pairs'', PDict [(''question'', PList [PStr '' q1 '', PStr ''q2'']),
                            (''explanation'', PList [PStr ''short'', PStr '' longer one'']),
                            (''answer'', PList [PStr ''a1'', PStr '' 42 ''])]),
      (''problem'', PStr ''q2''),
      (''solution'', PStr (''longer one'' @ [CHR 0x0A, CHR 0x0A] @ ''The answer is ''
                            @ [CHR 0x5C] @ ''boxed{42}.''))]) \<and>
   select_longest_index (\<lambda>v. Inl (StrException TypeError))
     [PStr ''short'', PStr '' longer one''] = Inr (Some 1) \<and>
   length [PStr ''short'', PStr '' longer one''] = length [PStr '' q1 '', PStr ''q2'']"
proof -
  let ?qs = "[PStr '' q1 '', PStr ''q2'']"
  let ?es = "[PStr ''short'', PStr '' longer one'']"
  let ?as = "[PStr ''a1'', PStr '' 42 '']"
  let ?src = "[(''question'', PList ?qs), (''explanation'', PList ?es), (''answer'', PList ?as)]"
  let ?ex = "[(''id'', PInt 7), (''qa_pairs'', PDict ?src)]"
  let ?r = "?ex @ [(''problem'', PStr ''q2''),
      (''solution'', PStr (''longer one'' @ [CHR 0x0A, CHR 0x0A] @ ''The answer is ''
                            @ [CHR 0x5C] @ ''boxed{42}.''))]"
  let ?c = "\<lambda>v::pyval. Inl (StrException TypeError) :: str_exn + string"
  have src: "?src = get_source_container qa_defaults ?ex"
    by (simp add: get_source_container_def dict_get_def qa_defaults_def)
  have qs: "?qs = as_list (dict_get ?src (question_field qa_defaults))"
    by (simp add: dict_get_def as_list_def qa_defaults_def)
  have es: "?es = as_list (dict_get ?src (explanation_field qa_defaults))"
    by (simp add: dict_get_def as_list_def qa_defaults_def)
  have as: "?as = as_list (dict_get ?src (answer_field qa_defaults))"
    by (simp add: dict_get_def as_list_def qa_defaults_def)
  have body: "qa_try_body ?c qa_defaults ?ex = Inr (Some ?r)"
    by (simp add: qa_try_body_def qa_defaults_def
        get_source_container_def dict_get_def
        as_list_def have_matching_lengths_def select_longest_index_def py_str_def
        stripped_at_def py_index_def strip_def is_space_def build_result_def
        remove_sources_def format_solution_def Let_def)
  then have run: "qa_process_example ?c qa_defaults ?ex = Inr (Some ?r)"
    by (simp add: qa_process_example_def)
  from body have quiet: "\<forall>exc. qa_try_body ?c qa_defaults ?ex \<noteq> Inl exc" by simp
  have sel: "select_longest_index ?c ?es = Inr (Some 1)"
    by (simp add: select_longest_index_def py_str_def)
  from emitted_solution_is_template[OF src qs es as run quiet]
  have "length ?es = length ?qs" by blast
  with run body sel show ?thesis by simp
qed

text \<open>
  C3. With \<^verbatim>\<open>keep_unmapped\<close> false and \<^verbatim>\<open>remove_source_fields\<close> true, a record that
  \<^verbatim>\<open>process_example\<close> returns has no field but the problem field and the solution field:
  nothing of the original record is carried over, so none of its other fields and none of
  the removed source fields is there. Where the two output names are not among the removed
  names, the fields of the record are exactly these two.
\<close>

theorem only_problem_and_solution:
  assumes "\<not> keep_unmapped p" and "remove_source_fields p"
    and "qa_process_example coerce p example = Inr (Some r)"
  shows "fst ` set r \<subseteq> {problem_field p, solution_field p} \<and>
         fst ` set r \<inter> removed_fields p = {} \<and>
         fst ` set r \<subseteq> {problem_field p, solution_field p}
                          \<union> (fst ` set example - {qa_pairs_field p}) \<and>
         ({problem_field p, solution_field p} \<inter> removed_fields p = {} \<longrightarrow>
            fst ` set r = {problem_field p, solution_field p})"
proof -
  from assms(1,3) have "qa_try_body coerce p example = Inr (Some r)"
    by (auto simp: qa_process_example_def split: sum.splits if_splits)
  from qa_try_body_Some[OF this] obtain q e a where "r = build_result p example q e a"
    by blast
  then have keys: "fst ` set r = {problem_field p, solution_field p} - removed_fields p"
    using assms(1) by (simp add: keys_build_result)
  then show ?thesis by auto
qed

theorem only_problem_and_solution_witness:
  "\<not> keep_unmapped (qa_defaults\<lparr>keep_unmapped := False, remove_source_fields := True\<rparr>) \<and>
   remove_source_fields (qa_defaults\<lparr>keep_unmapped := False, remove_source_fields := True\<rparr>) \<and>
   qa_process_example (\<lambda>v. Inl (StrException TypeError))
     (qa_defaults\<lparr>keep_unmapped := False, remove_source_fields := True\<rparr>)
     [(''id'', PInt 7),
      (''qa_pairs'', PDict [(''question'', PStr ''q''),
                            (''explanation'', PStr ''because''),
                            (''answer'', PStr ''4'')])]
   = Inr (Some
       [(''problem'', PStr ''q''),
        (''solution'', PStr (''because'' @ [CHR 0x0A, CHR 0x0A] @ ''The answer is ''
                              @ [CHR 0x5C] @ ''boxed{4}.''))]) \<and>
   fst ` set [(''problem'', PStr ''q''),
        (''solution'', PStr (''because'' @ [CHR 0x0A, CHR 0x0A] @ ''The answer is ''
                              @ [CHR 0x5C] @ ''boxed{4}.''))]
     = {''problem'', ''solution''}"
proof -
  let ?p = "qa_defaults\<lparr>keep_unmapped := False, remove_source_fields := True\<rparr>"
  let ?ex = "[(''id'', PInt 7),
      (''qa_pairs'', PDict [(''question'', PStr ''q''),
                            (''explanation'', PStr ''because''),
                            (''answer'', PStr ''4'')])]"
  let ?r = "[(''problem'', PStr ''q''),
        (''solution'', PStr (''because'' @ [CHR 0x0A, CHR 0x0A] @ ''The answer is ''
                              @ [CHR 0x5C] @ ''boxed{4}.''))]"
  have h1: "\<not> keep_unmapped ?p" by simp
  have h2: "remove_source_fields ?p" by simp
  have run: "qa_process_example (\<lambda>v. Inl (StrException TypeError)) ?p ?ex = Inr (Some ?r)"
    by (simp add: qa_process_example_def qa_try_body_def qa_defaults_def
        get_source_container_def dict_get_def
        as_list_def have_matching_lengths_def select_longest_index_def py_str_def
        stripped_at_def py_index_def strip_def is_space_def build_result_def
        remove_sources_def format_solution_def Let_def)
  have dis: "{problem_field ?p, solution_field ?p} \<inter> removed_fields ?p = {}"
    by (simp add: qa_defaults_def removed_fields_def)
  from only_problem_and_solution[OF h1 h2 run] dis
  have "fst ` set ?r = {problem_field ?p, solution_field ?p}" by blast
  then have "fst ` set ?r = {''problem'', ''solution''}" by (simp add: qa_defaults_def)
  with h1 h2 run show ?thesis by blast
qed

text \<open>
  C6 as stated fails: the handler of line 84 is \<^verbatim>\<open>except Exception\<close>, and an exception that is not
  an instance of \<^verbatim>\<open>Exception\<close>, such as a \<^verbatim>\<open>KeyboardInterrupt\<close> raised while \<^verbatim>\<open>str\<close> runs on an
  entry, is not caught and leaves \<^verbatim>\<open>process_example\<close>, whatever \<^verbatim>\<open>keep_unmapped\<close> is.
\<close>

theorem exceptions_are_contained_counterexample:
  "qa_try_body (\<lambda>v. Inl (StrBaseException KeyboardInterrupt)) qa_defaults
     [(''id'', PInt 7),
      (''qa_pairs'', PDict [(''question'', PStr ''q''),
                            (''explanation'', PObject 0),
                            (''answer'', PStr ''4'')])] = Inl (RaisedBase KeyboardInterrupt) \<and>
   qa_process_example (\<lambda>v. Inl (StrBaseException KeyboardInterrupt)) qa_defaults
     [(''id'', PInt 7),
      (''qa_pairs'', PDict [(''question'', PStr ''q''),
                            (''explanation'', PObject 0),
                            (''answer'', PStr ''4'')])] = Inl (RaisedBase KeyboardInterrupt) \<and>
   qa_process_example (\<lambda>v. Inl (StrBaseException KeyboardInterrupt))
     (qa_defaults\<lparr>keep_unmapped := False\<rparr>)
     [(''id'', PInt 7),
      (''qa_pairs'', PDict [(''question'', PStr ''q''),
                            (''explanation'', PObject 0),
                            (''answer'', PStr ''4'')])] = Inl (RaisedBase KeyboardInterrupt)"
  by (simp add: qa_process_example_def qa_try_body_def qa_defaults_def
      get_source_container_def dict_get_def is_Exception_def
      as_list_def have_matching_lengths_def select_longest_index_def py_str_def Let_def)

text \<open>
  C6, as amended. An exception raised inside the steps of \<^verbatim>\<open>process_example\<close> that is an
  instance of
  \<^verbatim>\<open>Exception\<close> is caught: \<^verbatim>\<open>process_example\<close> returns the record as it was given where
  \<^verbatim>\<open>keep_unmapped\<close> is true, and \<^verbatim>\<open>None\<close> (the record is dropped) where it is false. An
  exception leaves \<^verbatim>\<open>process_example\<close> only if it was raised inside the steps and is not an
  instance of \<^verbatim>\<open>Exception\<close>, and every such exception does. Where \<^verbatim>\<open>str\<close> raises instances of
  \<^verbatim>\<open>Exception\<close> only, \<^verbatim>\<open>process_example\<close> returns for every record.
\<close>

theorem exceptions_are_contained:
  "(\<forall>exc. qa_try_body coerce p example = Inl exc \<and> is_Exception exc \<longrightarrow>
      qa_process_example coerce p example
        = Inr (if keep_unmapped p then Some example else None)) \<and>
   (\<forall>exc. qa_process_example coerce p example = Inl exc \<longrightarrow>
      qa_try_body coerce p example = Inl exc \<and> \<not> is_Exception exc) \<and>
   (\<forall>exc. qa_try_body coerce p example = Inl exc \<and> \<not> is_Exception exc \<longrightarrow>
      qa_process_example coerce p example = Inl exc) \<and>
   ((\<forall>v b. coerce v \<noteq> Inl (StrBaseException b)) \<longrightarrow>
      (\<exists>r. qa_process_example coerce p example = Inr r))"
proof (intro conjI allI impI)
  fix exc
  assume "qa_try_body coerce p example = Inl exc \<and> is_Exception exc"
  then show "qa_process_example coerce p example
      = Inr (if keep_unmapped p then Some example else None)"
    by (simp add: qa_process_example_def)
next
  fix exc
  assume out: "qa_process_example coerce p example = Inl exc"
  show "qa_try_body coerce p example = Inl exc"
    using out by (auto simp: qa_process_example_def split: sum.splits if_splits)
  show "\<not> is_Exception exc"
    using out by (auto simp: qa_process_example_def split: sum.splits if_splits)
next
  fix exc
  assume "qa_try_body coerce p example = Inl exc \<and> \<not> is_Exception exc"
  then show "qa_process_example coerce p example = Inl exc"
    by (simp add: qa_process_example_def)
next
  assume tame: "\<forall>v b. coerce v \<noteq> Inl (StrBaseException b)"
  show "\<exists>r. qa_process_example coerce p example = Inr r"
  proof (cases "qa_try_body coerce p example")
    case (Inl exc)
    with qa_try_body_raises[OF Inl] tame have "is_Exception exc" by blast
    with Inl show ?thesis by (simp add: qa_process_example_def)
  next
    case (Inr r)
    then show ?thesis by (simp add: qa_process_example_def)
  qed
qed

theorem exceptions_are_contained_witness:
  "qa_try_body (\<lambda>v. Inl (StrException TypeError)) qa_defaults
     [(''id'', PInt 7),
      (''qa_pairs'', PDict [(''question'', PStr ''q''),
                            (''explanation'', PObject 0),
                            (''answer'', PStr ''4'')])] = Inl (Raised TypeError) \<and>
   is_Exception (Raised TypeError) \<and>
   qa_process_example (\<lambda>v. Inl (StrException TypeError)) qa_defaults
     [(''id'', PInt 7),
      (''qa_pairs'', PDict [(''question'', PStr ''q''),
                            (''explanation'', PObject 0),
                            (''answer'', PStr ''4'')])]
   = Inr (Some [(''id'', PInt 7),
      (''qa_pairs'', PDict [(''question'', PStr ''q''),
                            (''explanation'', PObject 0),
                            (''answer'', PStr ''4'')])]) \<and>
   qa_try_body (\<lambda>v. Inl (StrException TypeError)) (qa_defaults\<lparr>keep_unmapped := False\<rparr>)
     [(''qa_pairs'', PDict [(''question'', PObject 1),
                            (''explanation'', PStr ''because''),
                            (''answer'', PStr ''4'')])] = Inl (Raised TypeError) \<and>
   qa_process_example (\<lambda>v. Inl (StrException TypeError))
     (qa_defaults\<lparr>keep_unmapped := False\<rparr>)
     [(''qa_pairs'', PDict [(''question'', PObject 1),
                            (''explanation'', PStr ''because''),
                            (''answer'', PStr ''4'')])] = Inr None"
proof -
  let ?c = "\<lambda>v::pyval. Inl (StrException TypeError) :: str_exn + string"
  let ?ex1 = "[(''id'', PInt 7),
      (''qa_pairs'', PDict [(''question'', PStr ''q''),
                            (''explanation'', PObject 0),
                            (''answer'', PStr ''4'')])]"
  let ?ex2 = "[(''qa_pairs'', PDict [(''question'', PObject 1),
                            (''explanation'', PStr ''because''),
                            (''answer'', PStr ''4'')])]"
  have b1: "qa_try_body ?c qa_defaults ?ex1 = Inl (Raised TypeError)"
    by (simp add: qa_try_body_def qa_defaults_def get_source_container_def dict_get_def
        as_list_def have_matching_lengths_def select_longest_index_def py_str_def Let_def)
  have b2: "qa_try_body ?c (qa_defaults\<lparr>keep_unmapped := False\<rparr>) ?ex2
      = Inl (Raised TypeError)"
    by (simp add: qa_try_body_def qa_defaults_def get_source_container_def dict_get_def
        as_list_def have_matching_lengths_def select_longest_index_def py_str_def
        stripped_at_def py_index_def Let_def)
  have e: "is_Exception (Raised TypeError)" by (simp add: is_Exception_def)
  have caught: "qa_try_body ?c p ex = Inl exc \<and> is_Exception exc \<Longrightarrow>
      qa_process_example ?c p ex = Inr (if keep_unmapped p then Some ex else None)"
    for p ex exc
    using exceptions_are_contained[of ?c p ex] by blast
  from caught[of qa_defaults ?ex1 "Raised TypeError"] b1 e
  have r1: "qa_process_example ?c qa_defaults ?ex1 = Inr (Some ?ex1)"
    by (simp add: qa_defaults_def)
  from caught[of "qa_defaults\<lparr>keep_unmapped := False\<rparr>" ?ex2 "Raised TypeError"] b2 e
  have r2: "qa_process_example ?c (qa_defaults\<lparr>keep_unmapped := False\<rparr>) ?ex2 = Inr None"
    by simp
  from b1 e r1 b2 r2 show ?thesis by blast
qed

text \<open>
  C7. \<^verbatim>\<open>process_example\<close> returns \<^verbatim>\<open>None\<close> whenever the qa-pairs field is missing or holds
  no dictionary (the container is then the empty one), or one of the three sequences is
  empty, or the three lengths are not all equal. \<^verbatim>\<open>_as_list\<close> makes \<^verbatim>\<open>None\<close>, which is
  also what a missing key gives, the empty sequence, leaves a list as it is and makes any
  other value a sequence of one element.
\<close>

theorem dropped_when_sequences_invalid:
  assumes "source = get_source_container p example"
    and "questions = as_list (dict_get source (question_field p))"
    and "explanations = as_list (dict_get source (explanation_field p))"
    and "answers = as_list (dict_get source (answer_field p))"
  shows "((\<forall>d. map_of example (qa_pairs_field p) \<noteq> Some (PDict d)) \<longrightarrow>
            source = [] \<and> qa_process_example coerce p example = Inr None) \<and>
         (questions = [] \<or> explanations = [] \<or> answers = [] \<longrightarrow>
            qa_process_example coerce p example = Inr None) \<and>
         (length questions \<noteq> length explanations \<or> length explanations \<noteq> length answers
            \<or> length questions \<noteq> length answers \<longrightarrow>
            qa_process_example coerce p example = Inr None) \<and>
         as_list PNone = [] \<and>
         (\<forall>k. map_of source k = None \<longrightarrow> as_list (dict_get source k) = []) \<and>
         (\<forall>xs. as_list (PList xs) = xs) \<and>
         (\<forall>v. v \<noteq> PNone \<and> (\<forall>xs. v \<noteq> PList xs) \<longrightarrow> as_list v = [v])"
proof (intro conjI allI impI)
  assume nd: "\<forall>d. map_of example (qa_pairs_field p) \<noteq> Some (PDict d)"
  then show src: "source = []"
    by (auto simp: assms(1) get_source_container_def dict_get_def
        split: option.splits pyval.splits)
  then have "questions = []" by (simp add: assms(2) dict_get_def as_list_def)
  then have "qa_try_body coerce p example = Inr None"
    using qa_try_body_dropped[OF assms(2-4)[unfolded assms(1)]] by blast
  then show "qa_process_example coerce p example = Inr None"
    by (simp add: qa_process_example_def)
next
  assume "questions = [] \<or> explanations = [] \<or> answers = []"
  then have "qa_try_body coerce p example = Inr None"
    using qa_try_body_dropped[OF assms(2-4)[unfolded assms(1)]] by blast
  then show "qa_process_example coerce p example = Inr None"
    by (simp add: qa_process_example_def)
next
  assume "length questions \<noteq> length explanations \<or> length explanations \<noteq> length answers
            \<or> length questions \<noteq> length answers"
  then have "\<not> have_matching_lengths [questions, explanations, answers]"
    by (auto simp: have_matching_lengths3)
  then have "qa_try_body coerce p example = Inr None"
    using qa_try_body_dropped[OF assms(2-4)[unfolded assms(1)]] by blast
  then show "qa_process_example coerce p example = Inr None"
    by (simp add: qa_process_example_def)
next
  show "as_list PNone = []" by (simp add: as_list_def)
next
  fix k assume "map_of source k = None"
  then show "as_list (dict_get source k) = []" by (simp add: dict_get_def as_list_def)
next
  fix xs show "as_list (PList xs) = xs" by (simp add: as_list_def)
next
  fix v assume "v \<noteq> PNone \<and> (\<forall>xs. v \<noteq> PList xs)"
  then show "as_list v = [v]" by (cases v) (simp_all add: as_list_def)
qed

theorem dropped_when_sequences_invalid_witness:
  "get_source_container qa_defaults [(''qa_pairs'', PStr ''oops'')] = [] \<and>
   qa_process_example (\<lambda>v. Inl (StrException TypeError)) qa_defaults [(''qa_pairs'', PStr ''oops'')]
     = Inr None \<and>
   as_list (dict_get
      (get_source_container qa_defaults
        [(''qa_pairs'', PDict [(''question'', PList [PStr ''q1'', PStr ''q2'']),
                               (''explanation'', PList [PStr ''e1'', PStr ''e2'', PStr ''e3'']),
                               (''answer'', PStr ''a'')])])
      (answer_field qa_defaults)) = [PStr ''a''] \<and>
   qa_process_example (\<lambda>v. Inl (StrException TypeError)) qa_defaults
     [(''qa_pairs'', PDict [(''question'', PList [PStr ''q1'', PStr ''q2'']),
                            (''explanation'', PList [PStr ''e1'', PStr ''e2'', PStr ''e3'']),
                            (''answer'', PStr ''a'')])] = Inr None"
proof -
  let ?ex1 = "[(''qa_pairs'', PStr ''oops'')]"
  let ?ex2 = "[(''qa_pairs'', PDict [(''question'', PList [PStr ''q1'', PStr ''q2'']),
                            (''explanation'', PList [PStr ''e1'', PStr ''e2'', PStr ''e3'']),
                            (''answer'', PStr ''a'')])]"
  have nd: "\<forall>d. map_of ?ex1 (qa_pairs_field qa_defaults) \<noteq> Some (PDict d)"
    by (simp add: qa_defaults_def)
  from dropped_when_sequences_invalid
    [where p = qa_defaults and example = ?ex1 and coerce = "\<lambda>v. Inl (StrException TypeError)",
     OF refl refl refl refl] nd
  have w1: "get_source_container qa_defaults ?ex1 = [] \<and>
     qa_process_example (\<lambda>v. Inl (StrException TypeError)) qa_defaults ?ex1 = Inr None"
    by blast
  have a: "as_list (dict_get (get_source_container qa_defaults ?ex2) (answer_field qa_defaults))
      = [PStr ''a'']"
    by (simp add: qa_defaults_def get_source_container_def dict_get_def as_list_def)
  have len: "length (as_list (dict_get (get_source_container qa_defaults ?ex2)
        (question_field qa_defaults)))
      \<noteq> length (as_list (dict_get (get_source_container qa_defaults ?ex2)
        (explanation_field qa_defaults)))"
    by (simp add: qa_defaults_def get_source_container_def dict_get_def as_list_def)
  from dropped_when_sequences_invalid
    [where p = qa_defaults and example = ?ex2 and coerce = "\<lambda>v. Inl (StrException TypeError)",
     OF refl refl refl refl] len
  have w2: "qa_process_example (\<lambda>v. Inl (StrException TypeError)) qa_defaults ?ex2 = Inr None"
    by blast
  from w1 a w2 show ?thesis by blast
qed

section \<open>The loop over the image fields\<close>

lemma for_each_field_returns:
  assumes "\<And>ex f. \<exists>ws r. round ex f = (ws, Inr r)"
  shows "\<exists>ws r. for_each_field round fs ex = (ws, Inr r)"
proof (induction fs arbitrary: ex)
  case Nil
  show ?case by simp
next
  case (Cons f fs)
  from assms obtain ws ex' where "round ex f = (ws, Inr ex')" by blast
  moreover from Cons.IH obtain ws' r where "for_each_field round fs ex' = (ws', Inr r)" by blast
  ultimately show ?case by simp
qed

lemma for_each_field_raises:
  assumes "\<And>ex f ws e. round ex f = (ws, Inl e) \<Longrightarrow> P e"
    and "for_each_field round fs ex = (ws, Inl e)"
  shows "P e"
  using assms(2)
proof (induction fs arbitrary: ex ws)
  case Nil
  then show ?case by simp
next
  case (Cons f fs)
  then show ?case
    using assms(1) by (auto split: prod.splits sum.splits)
qed

lemma image_init_Inr:
  "image_init env config = Inr p \<longleftrightarrow>
     base_init env config = None \<and> HAS_PIL env \<and> HAS_DATASETS_IMAGE env \<and>
     p = \<lparr> image_fields = (case cfg_image_fields config of None \<Rightarrow> [''image''] | Some fs \<Rightarrow> fs),
           target_format = (case cfg_target_format config of None \<Rightarrow> ''hf_image'' | Some t \<Rightarrow> t),
           skip_on_error = (case cfg_skip_on_error config of None \<Rightarrow> True | Some b \<Rightarrow> b) \<rparr>"
  by (auto simp: image_init_def split: option.splits)

lemma pil_try_body_raises:
  "HAS_PIL env \<Longrightarrow> pil_try_body env ex f v = (ws, Inl e) \<Longrightarrow> \<exists>l. e = Raised l"
  by (auto simp: pil_try_body_def split: pyval.splits option.splits sum.splits if_splits)

lemma bytes_try_body_raises:
  "HAS_PIL env \<Longrightarrow> bytes_try_body env ex f v = (ws, Inl e) \<Longrightarrow> \<exists>l. e = Raised l"
  by (auto simp: bytes_try_body_def split: pyval.splits option.splits sum.splits if_splits)

lemma convert_to_pil_raises:
  "HAS_PIL env \<Longrightarrow> convert_to_pil env p ex f = (ws, Inl e) \<Longrightarrow> \<exists>l. e = Raised l"
  by (auto simp: convert_to_pil_def split: option.splits prod.splits sum.splits if_splits
      dest: pil_try_body_raises)

lemma convert_field_to_bytes_raises:
  "HAS_PIL env \<Longrightarrow> convert_field_to_bytes env p ex f = (ws, Inl e) \<Longrightarrow> \<exists>l. e = Raised l"
  by (auto simp: convert_field_to_bytes_def split: option.splits prod.splits sum.splits if_splits
      dest: bytes_try_body_raises)

lemma convert_to_pil_skips:
  "skip_on_error p \<Longrightarrow> \<exists>ws r. convert_to_pil env p ex f = (ws, Inr r)"
  by (auto simp: convert_to_pil_def split: option.splits prod.splits sum.splits)

lemma convert_field_to_bytes_skips:
  "skip_on_error p \<Longrightarrow> \<exists>ws r. convert_field_to_bytes env p ex f = (ws, Inr r)"
  by (auto simp: convert_field_to_bytes_def split: option.splits prod.splits sum.splits)

lemma bytes_try_body_other_field:
  "bytes_try_body env ex g v = (ws, Inr ex') \<Longrightarrow> g \<noteq> f \<Longrightarrow> map_of ex' f = map_of ex f"
  by (auto simp: bytes_try_body_def update_conv'
      split: pyval.splits option.splits sum.splits if_splits)

lemma convert_field_to_bytes_other_field:
  "convert_field_to_bytes env p ex g = (ws, Inr ex') \<Longrightarrow> g \<noteq> f \<Longrightarrow> map_of ex' f = map_of ex f"
  by (auto simp: convert_field_to_bytes_def
      split: option.splits prod.splits sum.splits if_splits dest: bytes_try_body_other_field)

lemma convert_field_to_bytes_bad_base64:
  assumes "HAS_PIL env" "map_of ex f = Some (PDict d)" "map_of d ''bytes'' = Some (PStr s)"
    "b64decode env s = Inl e"
  shows "convert_field_to_bytes env p ex f =
           ([ErrorConvertingToBytes f (Raised e)],
            if \<not> skip_on_error p then Inl (Raised e) else Inr ex)"
  using assms by (simp add: convert_field_to_bytes_def bytes_try_body_def)

lemma bytes_loop_strict_raises:
  assumes "HAS_PIL env" "map_of d ''bytes'' = Some (PStr s)" "b64decode env s = Inl e"
    "\<not> skip_on_error p"
  shows "map_of ex f = Some (PDict d) \<Longrightarrow> f \<in> set fs \<Longrightarrow>
         \<exists>ws e'. for_each_field (convert_field_to_bytes env p) fs ex = (ws, Inl e')"
proof (induction fs arbitrary: ex)
  case Nil
  then show ?case by simp
next
  case (Cons g fs)
  obtain ws r where round: "convert_field_to_bytes env p ex g = (ws, r)" by (cases "convert_field_to_bytes env p ex g")
  show ?case
  proof (cases r)
    case (Inl e')
    with round show ?thesis by simp
  next
    case (Inr ex')
    have "g \<noteq> f"
      using convert_field_to_bytes_bad_base64[OF assms(1) Cons.prems(1) assms(2,3), of p]
        assms(4) round Inr by auto
    with Cons.prems have "f \<in> set fs" by auto
    moreover have "map_of ex' f = Some (PDict d)"
      using convert_field_to_bytes_other_field[OF round[unfolded Inr] \<open>g \<noteq> f\<close>] Cons.prems(1)
      by simp
    ultimately obtain ws' e' where
      "for_each_field (convert_field_to_bytes env p) fs ex' = (ws', Inl e')"
      using Cons.IH by blast
    with round Inr show ?thesis by simp
  qed
qed

lemma bytes_loop_skip_continues:
  assumes "HAS_PIL env" "map_of d ''bytes'' = Some (PStr s)" "b64decode env s = Inl e"
    "skip_on_error p"
  shows "map_of ex f = Some (PDict d) \<Longrightarrow>
         \<exists>ws r. for_each_field (convert_field_to_bytes env p) fs ex = (ws, Inr r) \<and>
                map_of r f = Some (PDict d) \<and>
                (f \<in> set fs \<longrightarrow> ErrorConvertingToBytes f (Raised e) \<in> set ws)"
proof (induction fs arbitrary: ex)
  case Nil
  then show ?case by simp
next
  case (Cons g fs)
  from convert_field_to_bytes_skips[OF assms(4)]
  obtain ws ex' where round: "convert_field_to_bytes env p ex g = (ws, Inr ex')" by blast
  have keep: "map_of ex' f = Some (PDict d)"
  proof (cases "g = f")
    case True
    with round convert_field_to_bytes_bad_base64[OF assms(1) Cons.prems assms(2,3), of p] assms(4)
    show ?thesis using Cons.prems by simp
  next
    case False
    from convert_field_to_bytes_other_field[OF round False] Cons.prems show ?thesis by simp
  qed
  have here: "g = f \<Longrightarrow> ErrorConvertingToBytes f (Raised e) \<in> set ws"
    using round convert_field_to_bytes_bad_base64[OF assms(1) Cons.prems assms(2,3), of p] assms(4)
    by auto
  from Cons.IH[OF keep] obtain ws' r where
    rest: "for_each_field (convert_field_to_bytes env p) fs ex' = (ws', Inr r)"
      "map_of r f = Some (PDict d)" "f \<in> set fs \<longrightarrow> ErrorConvertingToBytes f (Raised e) \<in> set ws'"
    by blast
  from round rest here show ?case by auto
qed

section \<open>The image normalizer: construction and conversion failures\<close>

text \<open>
  C4. A constructed normalizer whose target is not \<^verbatim>\<open>hf_image\<close> (the encoded target), and
  a record in which one of its image fields holds a dictionary whose \<^verbatim>\<open>bytes\<close> entry is a
  text that \<^verbatim>\<open>base64.b64decode\<close> rejects. With \<^verbatim>\<open>skip_on_error\<close> false the round for that
  field logs the error and raises it again, and \<^verbatim>\<open>_convert_to_bytes\<close> and
  \<^verbatim>\<open>process_example\<close> end with an exception. With \<^verbatim>\<open>skip_on_error\<close> true, which is what a
  configuration that does not set the option gives, the error is logged,
  \<^verbatim>\<open>process_example\<close> returns a record, and the field is in it as it was.
\<close>

theorem corrupt_base64_bytes_target:
  assumes "image_init env config = Inr p"
    and "target_format p \<noteq> ''hf_image''"
    and "field \<in> set (image_fields p)"
    and "map_of example field = Some (PDict d)"
    and "map_of d ''bytes'' = Some (PStr s)"
    and "b64decode env s = Inl e"
  shows "(\<not> skip_on_error p \<longrightarrow>
            convert_field_to_bytes env p example field
              = ([ErrorConvertingToBytes field (Raised e)], Inl (Raised e)) \<and>
            (\<exists>ws e'. convert_to_bytes env p example = (ws, Inl e')) \<and>
            (\<exists>ws e'. img_process_example env p example = (ws, Inl e'))) \<and>
         (skip_on_error p \<longrightarrow>
            (\<exists>ws r. img_process_example env p example = (ws, Inr (Some r)) \<and>
                    ErrorConvertingToBytes field (Raised e) \<in> set ws \<and>
                    map_of r field = Some (PDict d))) \<and>
         (cfg_skip_on_error config = None \<longrightarrow> skip_on_error p)"
proof (intro conjI impI)
  from assms(1) have pil: "HAS_PIL env" by (simp add: image_init_Inr)
  {
    assume strict: "\<not> skip_on_error p"
    show "convert_field_to_bytes env p example field
            = ([ErrorConvertingToBytes field (Raised e)], Inl (Raised e))"
      using convert_field_to_bytes_bad_base64[OF pil assms(4,5,6), of p] strict by simp
    from bytes_loop_strict_raises[OF pil assms(5,6) strict assms(4,3)]
    show raises: "\<exists>ws e'. convert_to_bytes env p example = (ws, Inl e')"
      by (simp add: convert_to_bytes_def)
    then show "\<exists>ws e'. img_process_example env p example = (ws, Inl e')"
      using assms(2) by (auto simp: img_process_example_def)
  }
  {
    assume skip: "skip_on_error p"
    from bytes_loop_skip_continues[OF pil assms(5,6) skip assms(4), of "image_fields p"] assms(3)
    obtain ws r where "convert_to_bytes env p example = (ws, Inr r)"
      "map_of r field = Some (PDict d)" "ErrorConvertingToBytes field (Raised e) \<in> set ws"
      by (auto simp: convert_to_bytes_def)
    then show "\<exists>ws r. img_process_example env p example = (ws, Inr (Some r)) \<and>
                    ErrorConvertingToBytes field (Raised e) \<in> set ws \<and>
                    map_of r field = Some (PDict d)"
      using assms(2) by (auto simp: img_process_example_def)
  }
  {
    assume "cfg_skip_on_error config = None"
    with assms(1) show "skip_on_error p" by (auto simp: image_init_Inr)
  }
qed

theorem corrupt_base64_bytes_target_witness:
  "image_init test_environment
     \<lparr> cfg_image_fields = Some [''thumb'', ''image''], cfg_target_format = Some ''bytes'',
       cfg_skip_on_error = Some False \<rparr>
     = Inr \<lparr> image_fields = [''thumb'', ''image''], target_format = ''bytes'',
             skip_on_error = False \<rparr> \<and>
   img_process_example test_environment
     \<lparr> image_fields = [''thumb'', ''image''], target_format = ''bytes'', skip_on_error = False \<rparr>
     [(''thumb'', PStr ''aGk=''), (''image'', PDict [(''bytes'', PStr ''%%%'')])]
     = ([ErrorConvertingToBytes ''image'' (Raised BinasciiError)], Inl (Raised BinasciiError)) \<and>
   image_init test_environment
     \<lparr> cfg_image_fields = Some [''thumb'', ''image''], cfg_target_format = Some ''bytes'',
       cfg_skip_on_error = None \<rparr>
     = Inr \<lparr> image_fields = [''thumb'', ''image''], target_format = ''bytes'',
             skip_on_error = True \<rparr> \<and>
   img_process_example test_environment
     \<lparr> image_fields = [''thumb'', ''image''], target_format = ''bytes'', skip_on_error = True \<rparr>
     [(''thumb'', PStr ''aGk=''), (''image'', PDict [(''bytes'', PStr ''%%%'')])]
     = ([ErrorConvertingToBytes ''image'' (Raised BinasciiError)],
        Inr (Some [(''thumb'', PBytes [104, 105]),
                   (''image'', PDict [(''bytes'', PStr ''%%%'')])]))"
proof -
  let ?strict = "\<lparr> image_fields = [''thumb'', ''image''], target_format = ''bytes'',
                   skip_on_error = False \<rparr>"
  let ?skip = "\<lparr> image_fields = [''thumb'', ''image''], target_format = ''bytes'',
                 skip_on_error = True \<rparr>"
  let ?ex = "[(''thumb'', PStr ''aGk=''), (''image'', PDict [(''bytes'', PStr ''%%%'')])]"
  have i1: "image_init test_environment
     \<lparr> cfg_image_fields = Some [''thumb'', ''image''], cfg_target_format = Some ''bytes'',
       cfg_skip_on_error = Some False \<rparr> = Inr ?strict"
    by (simp add: image_init_def test_environment_def)
  have i2: "image_init test_environment
     \<lparr> cfg_image_fields = Some [''thumb'', ''image''], cfg_target_format = Some ''bytes'',
       cfg_skip_on_error = None \<rparr> = Inr ?skip"
    by (simp add: image_init_def test_environment_def)
  have t: "target_format ?strict \<noteq> ''hf_image''" "target_format ?skip \<noteq> ''hf_image''"
    by simp_all
  have f: "''image'' \<in> set (image_fields ?strict)" "''image'' \<in> set (image_fields ?skip)"
    by simp_all
  have m: "map_of ?ex ''image'' = Some (PDict [(''bytes'', PStr ''%%%'')])" by simp
  have b: "map_of [(''bytes'', PStr ''%%%'')] ''bytes'' = Some (PStr ''%%%'')" by simp
  have d: "b64decode test_environment ''%%%'' = Inl BinasciiError"
    by (simp add: test_environment_def)
  have r1: "img_process_example test_environment ?strict ?ex
      = ([ErrorConvertingToBytes ''image'' (Raised BinasciiError)], Inl (Raised BinasciiError))"
    by (simp add: img_process_example_def convert_to_bytes_def convert_field_to_bytes_def
        bytes_try_body_def test_environment_def)
  have r2: "img_process_example test_environment ?skip ?ex
      = ([ErrorConvertingToBytes ''image'' (Raised BinasciiError)],
         Inr (Some [(''thumb'', PBytes [104, 105]),
                    (''image'', PDict [(''bytes'', PStr ''%%%'')])]))"
    by (simp add: img_process_example_def convert_to_bytes_def convert_field_to_bytes_def
        bytes_try_body_def test_environment_def)
  from corrupt_base64_bytes_target[OF i1 t(1) f(1) m b d]
  have "\<exists>ws e'. img_process_example test_environment ?strict ?ex = (ws, Inl e')" by simp
  moreover from corrupt_base64_bytes_target[OF i2 t(2) f(2) m b d]
  have "skip_on_error ?skip" by simp
  ultimately show ?thesis using i1 i2 r1 r2 by simp
qed

text \<open>
  C5. A constructed normalizer with target \<^verbatim>\<open>hf_image\<close> (the decoded target), and a record
  whose image field holds a text that \<^verbatim>\<open>base64.b64decode\<close> rejects, or whose decoded bytes
  \<^verbatim>\<open>PILImage.open\<close> rejects. \<^verbatim>\<open>_convert_to_pil\<close> logs the one warning of line 164 and returns
  the record as it was; it raises nothing, whatever \<^verbatim>\<open>skip_on_error\<close> is. With that field
  the only image field, \<^verbatim>\<open>process_example\<close> does the same.
\<close>

theorem bare_base64_failure_is_swallowed:
  assumes "image_init env config = Inr p"
    and "target_format p = ''hf_image''"
    and "map_of example field = Some (PStr s)"
    and "(\<exists>e. b64decode env s = Inl e) \<or>
         (\<exists>b e. b64decode env s = Inr b \<and> pil_open env b = Inl e)"
  shows "convert_to_pil env p example field = ([FailedBase64 field], Inr example) \<and>
         (image_fields p = [field] \<longrightarrow>
            img_process_example env p example = ([FailedBase64 field], Inr (Some example)))"
proof -
  from assms(1) have pil: "HAS_PIL env" by (simp add: image_init_Inr)
  from assms(4) have "pil_try_body env example field (PStr s) = ([FailedBase64 field], Inr example)"
    using pil by (auto simp: pil_try_body_def)
  with assms(3) have one: "convert_to_pil env p example field = ([FailedBase64 field], Inr example)"
    by (simp add: convert_to_pil_def)
  then show ?thesis using assms(2) by (simp add: img_process_example_def)
qed

theorem bare_base64_failure_is_swallowed_witness:
  "image_init test_environment
     \<lparr> cfg_image_fields = None, cfg_target_format = None, cfg_skip_on_error = Some False \<rparr>
     = Inr \<lparr> image_fields = [''image''], target_format = ''hf_image'', skip_on_error = False \<rparr> \<and>
   img_process_example test_environment
     \<lparr> image_fields = [''image''], target_format = ''hf_image'', skip_on_error = False \<rparr>
     [(''image'', PStr ''%%%'')]
     = ([FailedBase64 ''image''], Inr (Some [(''image'', PStr ''%%%'')])) \<and>
   image_init test_environment
     \<lparr> cfg_image_fields = None, cfg_target_format = None, cfg_skip_on_error = Some True \<rparr>
     = Inr \<lparr> image_fields = [''image''], target_format = ''hf_image'', skip_on_error = True \<rparr> \<and>
   img_process_example test_environment
     \<lparr> image_fields = [''image''], target_format = ''hf_image'', skip_on_error = True \<rparr>
     [(''image'', PStr ''aGk='')]
     = ([FailedBase64 ''image''], Inr (Some [(''image'', PStr ''aGk='')]))"
proof -
  let ?strict = "\<lparr> image_fields = [''image''], target_format = ''hf_image'',
                   skip_on_error = False \<rparr>"
  let ?skip = "\<lparr> image_fields = [''image''], target_format = ''hf_image'',
                 skip_on_error = True \<rparr>"
  have i1: "image_init test_environment
     \<lparr> cfg_image_fields = None, cfg_target_format = None, cfg_skip_on_error = Some False \<rparr>
     = Inr ?strict"
    by (simp add: image_init_def test_environment_def)
  have i2: "image_init test_environment
     \<lparr> cfg_image_fields = None, cfg_target_format = None, cfg_skip_on_error = Some True \<rparr>
     = Inr ?skip"
    by (simp add: image_init_def test_environment_def)
  have d1: "(\<exists>e. b64decode test_environment ''%%%'' = Inl e) \<or>
      (\<exists>b e. b64decode test_environment ''%%%'' = Inr b \<and> pil_open test_environment b = Inl e)"
    by (simp add: test_environment_def)
  have d2: "(\<exists>e. b64decode test_environment ''aGk='' = Inl e) \<or>
      (\<exists>b e. b64decode test_environment ''aGk='' = Inr b \<and> pil_open test_environment b = Inl e)"
    by (simp add: test_environment_def)
  have m1: "map_of [(''image'', PStr ''%%%'')] ''image'' = Some (PStr ''%%%'')" by simp
  have m2: "map_of [(''image'', PStr ''aGk='')] ''image'' = Some (PStr ''aGk='')" by simp
  from bare_base64_failure_is_swallowed[OF i1 _ m1 d1]
  have r1: "img_process_example test_environment ?strict [(''image'', PStr ''%%%'')]
      = ([FailedBase64 ''image''], Inr (Some [(''image'', PStr ''%%%'')]))"
    by simp
  from bare_base64_failure_is_swallowed[OF i2 _ m2 d2]
  have r2: "img_process_example test_environment ?skip [(''image'', PStr ''aGk='')]
      = ([FailedBase64 ''image''], Inr (Some [(''image'', PStr ''aGk='')]))"
    by simp
  from i1 r1 i2 r2 show ?thesis by blast
qed

text \<open>
  C8. The constructor raises, and builds no processor, whenever the import of PIL or the
  import of \<^verbatim>\<open>datasets.Image\<close> failed: once the constructor of the base class has returned,
  the exception is the \<^verbatim>\<open>ImportError\<close> of line 45 or of line 48. With both imports present
  and the base constructor returning, it builds a processor, whatever the configuration.
  An exception that leaves \<^verbatim>\<open>process_example\<close> of a constructed processor is one a library
  call raised while converting: never an \<^verbatim>\<open>ImportError\<close>, and never the \<^verbatim>\<open>NameError\<close> of a
  name whose import failed.
\<close>

theorem construction_fails_fast:
  "(\<not> HAS_PIL env \<or> \<not> HAS_DATASETS_IMAGE env \<longrightarrow> (\<exists>e. image_init env config = Inl e)) \<and>
   (base_init env config = None \<and> \<not> HAS_PIL env \<longrightarrow>
      image_init env config = Inl (ImportError ''PIL is required for image format conversion'')) \<and>
   (base_init env config = None \<and> HAS_PIL env \<and> \<not> HAS_DATASETS_IMAGE env \<longrightarrow>
      image_init env config
        = Inl (ImportError ''datasets.Image is required for format conversion'')) \<and>
   (base_init env config = None \<and> HAS_PIL env \<and> HAS_DATASETS_IMAGE env \<longrightarrow>
      (\<exists>p. image_init env config = Inr p)) \<and>
   (\<forall>p example ws e.
      image_init env config = Inr p \<and> img_process_example env p example = (ws, Inl e) \<longrightarrow>
      (\<exists>l. e = Raised l))"
proof (intro conjI allI impI)
  assume "\<not> HAS_PIL env \<or> \<not> HAS_DATASETS_IMAGE env"
  then show "\<exists>e. image_init env config = Inl e"
    by (auto simp: image_init_def split: option.splits)
next
  assume "base_init env config = None \<and> \<not> HAS_PIL env"
  then show "image_init env config
      = Inl (ImportError ''PIL is required for image format conversion'')"
    by (simp add: image_init_def)
next
  assume "base_init env config = None \<and> HAS_PIL env \<and> \<not> HAS_DATASETS_IMAGE env"
  then show "image_init env config
      = Inl (ImportError ''datasets.Image is required for format conversion'')"
    by (simp add: image_init_def)
next
  assume "base_init env config = None \<and> HAS_PIL env \<and> HAS_DATASETS_IMAGE env"
  then show "\<exists>p. image_init env config = Inr p"
    by (simp add: image_init_def)
next
  fix p example ws e
  assume a: "image_init env config = Inr p \<and> img_process_example env p example = (ws, Inl e)"
  then have pil: "HAS_PIL env" by (simp add: image_init_Inr)
  show "\<exists>l. e = Raised l"
  proof (cases "target_format p = ''hf_image''")
    case True
    with a have "for_each_field (convert_to_pil env p) (image_fields p) example = (ws, Inl e)"
      by (auto simp: img_process_example_def split: prod.splits sum.splits)
    then show ?thesis
      by (rule for_each_field_raises[rotated]) (rule convert_to_pil_raises[OF pil])
  next
    case False
    with a have "for_each_field (convert_field_to_bytes env p) (image_fields p) example
        = (ws, Inl e)"
      by (auto simp: img_process_example_def convert_to_bytes_def split: prod.splits sum.splits)
    then show ?thesis
      by (rule for_each_field_raises[rotated]) (rule convert_field_to_bytes_raises[OF pil])
  qed
qed

theorem construction_fails_fast_witness:
  "image_init (test_environment\<lparr>HAS_PIL := False\<rparr>)
     \<lparr> cfg_image_fields = None, cfg_target_format = None, cfg_skip_on_error = None \<rparr>
     = Inl (ImportError ''PIL is required for image format conversion'') \<and>
   image_init (test_environment\<lparr>HAS_DATASETS_IMAGE := False\<rparr>)
     \<lparr> cfg_image_fields = None, cfg_target_format = None, cfg_skip_on_error = None \<rparr>
     = Inl (ImportError ''datasets.Image is required for format conversion'') \<and>
   image_init test_environment
     \<lparr> cfg_image_fields = None, cfg_target_format = None, cfg_skip_on_error = Some False \<rparr>
     = Inr \<lparr> image_fields = [''image''], target_format = ''hf_image'', skip_on_error = False \<rparr> \<and>
   img_process_example test_environment
     \<lparr> image_fields = [''image''], target_format = ''hf_image'', skip_on_error = False \<rparr>
     [(''image'', PBytes [1, 2])]
     = ([ErrorConvertingImage ''image'' (Raised UnidentifiedImageError)],
        Inl (Raised UnidentifiedImageError))"
proof -
  let ?none = "\<lparr> cfg_image_fields = None, cfg_target_format = None, cfg_skip_on_error = None \<rparr>"
  have h1: "base_init (test_environment\<lparr>HAS_PIL := False\<rparr>) ?none = None \<and>
      \<not> HAS_PIL (test_environment\<lparr>HAS_PIL := False\<rparr>)"
    by (simp add: test_environment_def)
  have h2: "base_init (test_environment\<lparr>HAS_DATASETS_IMAGE := False\<rparr>) ?none = None \<and>
      HAS_PIL (test_environment\<lparr>HAS_DATASETS_IMAGE := False\<rparr>) \<and>
      \<not> HAS_DATASETS_IMAGE (test_environment\<lparr>HAS_DATASETS_IMAGE := False\<rparr>)"
    by (simp add: test_environment_def)
  from construction_fails_fast[of "test_environment\<lparr>HAS_PIL := False\<rparr>" ?none] h1
  have w1: "image_init (test_environment\<lparr>HAS_PIL := False\<rparr>) ?none
      = Inl (ImportError ''PIL is required for image format conversion'')"
    by blast
  from construction_fails_fast[of "test_environment\<lparr>HAS_DATASETS_IMAGE := False\<rparr>" ?none] h2
  have w2: "image_init (test_environment\<lparr>HAS_DATASETS_IMAGE := False\<rparr>) ?none
      = Inl (ImportError ''datasets.Image is required for format conversion'')"
    by blast
  have w3: "image_init test_environment
     \<lparr> cfg_image_fields = None, cfg_target_format = None, cfg_skip_on_error = Some False \<rparr>
     = Inr \<lparr> image_fields = [''image''], target_format = ''hf_image'', skip_on_error = False \<rparr>"
    by (simp add: image_init_def test_environment_def)
  have w4: "img_process_example test_environment
     \<lparr> image_fields = [''image''], target_format = ''hf_image'', skip_on_error = False \<rparr>
     [(''image'', PBytes [1, 2])]
     = ([ErrorConvertingImage ''image'' (Raised UnidentifiedImageError)],
        Inl (Raised UnidentifiedImageError))"
    by (simp add: img_process_example_def convert_to_pil_def pil_try_body_def
        test_environment_def)
  from w1 w2 w3 w4 show ?thesis by blast
qed

text \<open>
  C9. \<^verbatim>\<open>process_example\<close> of the image normalizer never returns \<^verbatim>\<open>None\<close>: whatever it
  returns is a record, so removing the results that are \<^verbatim>\<open>None\<close> from the results of any
  list of records removes nothing. With \<^verbatim>\<open>skip_on_error\<close> true it returns for every record;
  with \<^verbatim>\<open>skip_on_error\<close> false it returns a record or ends with an exception.
\<close>

theorem image_process_example_never_none:
  "snd (img_process_example env p example) \<noteq> Inr None \<and>
   (\<forall>r. snd (img_process_example env p example) = Inr r \<longrightarrow> (\<exists>example'. r = Some example')) \<and>
   filter (\<lambda>result. snd result \<noteq> Inr None) (map (img_process_example env p) records)
     = map (img_process_example env p) records \<and>
   (skip_on_error p \<longrightarrow>
      (\<exists>ws example'. img_process_example env p example = (ws, Inr (Some example'))))"
proof (intro conjI allI impI)
  show never: "snd (img_process_example env p example) \<noteq> Inr None" for example
    by (auto simp: img_process_example_def split: prod.splits sum.splits)
  show "filter (\<lambda>result. snd result \<noteq> Inr None) (map (img_process_example env p) records)
      = map (img_process_example env p) records"
    by (induction records) (simp_all add: never)
next
  fix r assume "snd (img_process_example env p example) = Inr r"
  then show "\<exists>example'. r = Some example'"
    by (auto simp: img_process_example_def split: prod.splits sum.splits if_splits)
next
  assume skip: "skip_on_error p"
  have "\<exists>ws r. for_each_field (convert_to_pil env p) (image_fields p) example = (ws, Inr r)"
    by (rule for_each_field_returns) (rule convert_to_pil_skips[OF skip])
  moreover
  have "\<exists>ws r. for_each_field (convert_field_to_bytes env p) (image_fields p) example
      = (ws, Inr r)"
    by (rule for_each_field_returns) (rule convert_field_to_bytes_skips[OF skip])
  ultimately show "\<exists>ws example'. img_process_example env p example = (ws, Inr (Some example'))"
    by (auto simp: img_process_example_def convert_to_bytes_def)
qed

theorem image_process_example_never_none_witness:
  "skip_on_error \<lparr> image_fields = [''image'', ''thumb''], target_format = ''hf_image'',
                   skip_on_error = True \<rparr> \<and>
   img_process_example test_environment
     \<lparr> image_fields = [''image'', ''thumb''], target_format = ''hf_image'', skip_on_error = True \<rparr>
     [(''image'', PBytes [1, 2]), (''thumb'', PDict [(''bytes'', PInt 3)])]
     = ([ErrorConvertingImage ''image'' (Raised UnidentifiedImageError), UnexpectedBytesType],
        Inr (Some [(''image'', PBytes [1, 2]), (''thumb'', PDict [(''bytes'', PInt 3)])]))"
proof -
  let ?p = "\<lparr> image_fields = [''image'', ''thumb''], target_format = ''hf_image'',
              skip_on_error = True \<rparr>"
  let ?ex = "[(''image'', PBytes [1, 2]), (''thumb'', PDict [(''bytes'', PInt 3)])]"
  have s: "skip_on_error ?p" by simp
  from image_process_example_never_none[of test_environment ?p ?ex "[?ex]"] s
  have "\<exists>ws example'. img_process_example test_environment ?p ?ex = (ws, Inr (Some example'))"
    by blast
  moreover have "img_process_example test_environment ?p ?ex
     = ([ErrorConvertingImage ''image'' (Raised UnidentifiedImageError), UnexpectedBytesType],
        Inr (Some ?ex))"
    by (simp add: img_process_example_def convert_to_pil_def pil_try_body_def
        test_environment_def)
  ultimately show ?thesis using s by blast
qed

end
